theory Spec2Isabelle
  imports Complex_Main
begin

section \<open>Calibrated array transformations of nion/data/Core.py\<close>

text \<open>
  The development embeds the calibration-propagating catalog of
  \<^verbatim>\<open>src/nion/data/Core.py\<close>. Python floats are read as real numbers, Python
  exceptions are values of the type \<open>error\<close> (a function that may raise returns
  \<open>error + 'a\<close>, \<open>Inl\<close> being the raise), and Python's \<^verbatim>\<open>None\<close> is \<open>None\<close>
  of an option type. The dense-array routines of numpy and scipy are not part of the
  source: those whose values matter only as payload are fields of the records \<open>kernel\<close>
  and \<open>routines\<close>, parameters of the entries that call them, and those whose shapes or failures
  decide what an entry returns (slicing, \<^verbatim>\<open>zeros\<close>, \<^verbatim>\<open>concatenate\<close>, \<^verbatim>\<open>reshape\<close>) are
  written out. The time \<^verbatim>\<open>datetime.datetime.utcnow()\<close> is the parameter \<open>now\<close>.
\<close>

subsection \<open>Errors\<close>

datatype error =
    NotImplementedError
  | AssertionError
  | ZeroDivisionError
  | ValueError
  | TypeError
  | IndexError
  | AxisError

text \<open>Python's float division: a zero divisor raises.\<close>

definition py_div :: "real \<Rightarrow> real \<Rightarrow> error + real" where
  "py_div a b = (if b = 0 then Inl ZeroDivisionError else Inr (a / b))"

text \<open>Python's \<^verbatim>\<open>int(x)\<close> on a float: truncation towards zero.\<close>

definition py_int :: "real \<Rightarrow> int" where
  "py_int x = (if 0 \<le> x then \<lfloor>x\<rfloor> else \<lceil>x\<rceil>)"

text \<open>A list comprehension whose body may raise: the first raise ends it.\<close>

fun map_result :: "('a \<Rightarrow> error + 'b) \<Rightarrow> 'a list \<Rightarrow> error + 'b list" where
  "map_result f [] = Inr []"
| "map_result f (x # xs) =
     (case f x of
        Inl e \<Rightarrow> Inl e
      | Inr y \<Rightarrow> (case map_result f xs of Inl e \<Rightarrow> Inl e | Inr ys \<Rightarrow> Inr (y # ys)))"

subsection \<open>Data model\<close>

text \<open>
  Modelled from the spec: the class \<^verbatim>\<open>Calibration.Calibration\<close> is imported by the
  source and not defined in it. The spec gives it as the triple
  \<open>(offset: float, scale: float, units: string)\<close>, read through
  \<^verbatim>\<open>.offset\<close>, \<^verbatim>\<open>.scale\<close>, \<^verbatim>\<open>.units\<close>, equal by value.
\<close>

record calibration =
  offset :: real
  scale :: real
  units :: string

text \<open>
  Modelled from the spec: \<^verbatim>\<open>Calibration.Calibration()\<close> with no argument, the
  "uncalibrated" calibration \<open>(0.0, 1.0, "")\<close>.
\<close>

definition uncalibrated :: calibration where
  "uncalibrated = \<lparr>offset = 0, scale = 1, units = ''''\<rparr>"

text \<open>
  The element types of \<^verbatim>\<open>dtype_map\<close>; \<open>OtherDType\<close> stands for every numpy dtype
  outside the supported set.
\<close>

datatype dtype =
    Int8 | Int16 | Int32 | Int64
  | UInt8 | UInt16 | UInt32 | UInt64
  | Float32 | Float64
  | Complex64 | Complex128
  | OtherDType

text \<open>
  A numpy array: its shape, its element type and its elements in row-major order.
\<close>

record ndarray =
  shape :: "nat list"
  dtype :: dtype
  elems :: "complex list"

type_synonym metadata = "(string \<times> string) list"

text \<open>
  Modelled from the spec: the result type \<^verbatim>\<open>DataAndMetadata.DataAndMetadata\<close> is
  imported by the source and not defined in it. The spec gives its fields
  \<open>data\<close>, \<open>intensity_calibration\<close>, \<open>dimensional_calibrations\<close>, \<open>metadata\<close>,
  \<open>timestamp\<close>; \<open>data_shape\<close> and \<open>data_dtype\<close> are read off the payload. The payload
  and the calibration list may each be absent.
\<close>

record data_and_metadata =
  data :: "ndarray option"
  intensity_calibration :: calibration
  dimensional_calibrations :: "calibration list option"
  metadata :: metadata
  timestamp :: nat

definition data_shape :: "data_and_metadata \<Rightarrow> nat list option" where
  "data_shape dm = map_option shape (data dm)"

definition data_dtype :: "data_and_metadata \<Rightarrow> dtype option" where
  "data_dtype dm = map_option dtype (data dm)"

text \<open>
  Modelled from the spec: \<^verbatim>\<open>DataAndMetadata.new_data_and_metadata\<close> packages an
  already computed payload with its calibrations, metadata and timestamp.
\<close>

definition new_data_and_metadata ::
  "ndarray option \<Rightarrow> calibration \<Rightarrow> calibration list option \<Rightarrow> metadata \<Rightarrow> nat
     \<Rightarrow> data_and_metadata" where
  "new_data_and_metadata d ic dcs md ts =
     \<lparr>data = d, intensity_calibration = ic, dimensional_calibrations = dcs,
      metadata = md, timestamp = ts\<rparr>"

subsection \<open>Shape and dtype predicates of the module Image\<close>

text \<open>
  Modelled from the spec: the module \<^verbatim>\<open>Image\<close> is imported by the source and not
  defined in it. The spec: the payload "may be a 2-D RGB (3-channel uint8) or RGBA
  (4-channel uint8) encoding where the last axis is a fixed-size color channel rather
  than a data axis".
\<close>

definition is_shape_and_dtype_rgb :: "nat list \<Rightarrow> dtype \<Rightarrow> bool" where
  "is_shape_and_dtype_rgb s t \<longleftrightarrow> t = UInt8 \<and> length s = 3 \<and> last s = 3"

definition is_shape_and_dtype_rgba :: "nat list \<Rightarrow> dtype \<Rightarrow> bool" where
  "is_shape_and_dtype_rgba s t \<longleftrightarrow> t = UInt8 \<and> length s = 3 \<and> last s = 4"

definition is_shape_and_dtype_rgb_type :: "nat list \<Rightarrow> dtype \<Rightarrow> bool" where
  "is_shape_and_dtype_rgb_type s t \<longleftrightarrow>
     is_shape_and_dtype_rgb s t \<or> is_shape_and_dtype_rgba s t"

text \<open>
  Modelled from the spec: the rank is the number of data axes, "color-channel axis
  excluded from rank".
\<close>

definition dimensional_shape_from_shape_and_dtype :: "nat list \<Rightarrow> dtype \<Rightarrow> nat list" where
  "dimensional_shape_from_shape_and_dtype s t =
     (if is_shape_and_dtype_rgb_type s t then butlast s else s)"

text \<open>
  Modelled from the spec: the validity predicate, "non-zero extents in every axis,
  dtype in the supported set, plus the RGB/RGBA special cases"; an absent shape or
  dtype is not valid.
\<close>

definition is_shape_and_dtype_valid :: "nat list option \<Rightarrow> dtype option \<Rightarrow> bool" where
  "is_shape_and_dtype_valid so to =
     (case (so, to) of
        (Some s, Some t) \<Rightarrow> s \<noteq> [] \<and> t \<noteq> OtherDType \<and> (\<forall>n \<in> set s. 0 < n)
      | _ \<Rightarrow> False)"

definition is_data_valid :: "ndarray option \<Rightarrow> bool" where
  "is_data_valid d = is_shape_and_dtype_valid (map_option shape d) (map_option dtype d)"

definition is_shape_and_dtype_1d :: "nat list \<Rightarrow> dtype \<Rightarrow> bool" where
  "is_shape_and_dtype_1d s t \<longleftrightarrow> length (dimensional_shape_from_shape_and_dtype s t) = 1"

definition is_shape_and_dtype_2d :: "nat list \<Rightarrow> dtype \<Rightarrow> bool" where
  "is_shape_and_dtype_2d s t \<longleftrightarrow> length (dimensional_shape_from_shape_and_dtype s t) = 2"

definition is_data_1d :: "ndarray \<Rightarrow> bool" where
  "is_data_1d d = is_shape_and_dtype_1d (shape d) (dtype d)"

definition is_data_2d :: "ndarray \<Rightarrow> bool" where
  "is_data_2d d = is_shape_and_dtype_2d (shape d) (dtype d)"

subsection \<open>The numeric kernel\<close>

text \<open>
  The routines of numpy, scipy.fftpack and scipy.ndimage that the entries call on the
  payload. They are outside the source; each is a parameter.
\<close>

record kernel =
  k_fft :: "ndarray \<Rightarrow> ndarray"
  k_fft2 :: "ndarray \<Rightarrow> ndarray"
  k_ifft :: "ndarray \<Rightarrow> ndarray"
  k_ifft2 :: "ndarray \<Rightarrow> ndarray"
  k_fftshift :: "ndarray \<Rightarrow> ndarray"
  k_ifftshift :: "ndarray \<Rightarrow> ndarray"
  k_sobel :: "ndarray \<Rightarrow> ndarray"
  k_laplace :: "ndarray \<Rightarrow> ndarray"
  k_gaussian_filter :: "ndarray \<Rightarrow> real \<Rightarrow> ndarray"
  k_median_filter :: "ndarray \<Rightarrow> int \<Rightarrow> ndarray"
  k_uniform_filter :: "ndarray \<Rightarrow> int \<Rightarrow> ndarray"
  k_convert_to_grayscale :: "ndarray \<Rightarrow> ndarray"
  k_map_coordinates :: "ndarray \<Rightarrow> (int \<times> int) \<Rightarrow> (int \<times> int) \<Rightarrow> int \<Rightarrow> ndarray"
  k_result_type :: "dtype list \<Rightarrow> dtype"

text \<open>
  \<open>k_map_coordinates K d start end n\<close> stands for the samples that
  \<^verbatim>\<open>scipy.ndimage.map_coordinates\<close> returns on the grid that \<^verbatim>\<open>get_coordinates\<close>
  builds from \<open>start\<close>, \<open>end\<close> and \<open>n\<close>. It is called only with \<open>n\<close> positive and
  with \<open>start\<close> and \<open>end\<close> more than one pixel apart, where the assertion and the
  divisions of \<^verbatim>\<open>get_coordinates\<close> go through. \<open>k_result_type\<close> is numpy's promotion
  of element types.
\<close>

text \<open>\<^verbatim>\<open>numpy.multiply(a, c)\<close> and \<^verbatim>\<open>a * c\<close> for a real scalar \<open>c\<close>.\<close>

definition multiply :: "ndarray \<Rightarrow> real \<Rightarrow> ndarray" where
  "multiply a c = a\<lparr>elems := map (\<lambda>z. z * complex_of_real c) (elems a)\<rparr>"

subsection \<open>Fourier transforms\<close>

definition fft_calculate_data :: "kernel \<Rightarrow> data_and_metadata \<Rightarrow> error + ndarray option" where
  "fft_calculate_data K dm =
     (case data dm of
        None \<Rightarrow> Inr None
      | Some d \<Rightarrow>
          if \<not> is_data_valid (Some d) then Inr None
          else if is_data_1d d then
            (let scaling = 1 / sqrt (real (shape d ! 0))
             in Inr (Some (k_fftshift K (multiply (k_fft K d) scaling))))
          else if is_data_2d d then
            (let scaling = 1 / sqrt (real (shape d ! 1 * shape d ! 0))
             in Inr (Some (k_fftshift K (multiply (k_fft2 K d) scaling))))
          else Inl NotImplementedError)"

text \<open>
  One element of the list comprehension of \<^verbatim>\<open>function_fft\<close>: the two divisions are
  Python float divisions.
\<close>

definition fft_calibration :: "calibration \<times> nat \<Rightarrow> error + calibration" where
  "fft_calibration cn =
     (case cn of (c, n) \<Rightarrow>
        (case py_div (- 0.5) (scale c) of
           Inl e \<Rightarrow> Inl e
         | Inr off \<Rightarrow>
             (case py_div 1 (scale c * real n) of
                Inl e \<Rightarrow> Inl e
              | Inr sc \<Rightarrow> Inr \<lparr>offset = off, scale = sc, units = ''1/'' @ units c\<rparr>)))"

definition function_fft ::
  "kernel \<Rightarrow> nat \<Rightarrow> data_and_metadata \<Rightarrow> error + data_and_metadata option" where
  "function_fft K now dm =
     (case (data dm, dimensional_calibrations dm) of
        (Some d, Some src) \<Rightarrow>
          if \<not> is_shape_and_dtype_valid (data_shape dm) (data_dtype dm) then Inr None
          else if length src \<noteq>
                  length (dimensional_shape_from_shape_and_dtype (shape d) (dtype d))
          then Inl AssertionError
          else
            (case map_result fft_calibration (zip src (shape d)) of
               Inl e \<Rightarrow> Inl e
             | Inr cals \<Rightarrow>
                 (case fft_calculate_data K dm of
                    Inl e \<Rightarrow> Inl e
                  | Inr r \<Rightarrow>
                      Inr (Some (new_data_and_metadata r uncalibrated (Some cals) [] now))))
      | _ \<Rightarrow> Inr None)"


definition ifft_calculate_data :: "kernel \<Rightarrow> data_and_metadata \<Rightarrow> error + ndarray option" where
  "ifft_calculate_data K dm =
     (case data dm of
        None \<Rightarrow> Inr None
      | Some d \<Rightarrow>
          if \<not> is_data_valid (Some d) then Inr None
          else if is_data_1d d then
            (let scaling = sqrt (real (shape d ! 0))
             in Inr (Some (k_fftshift K (multiply (k_ifft K d) scaling))))
          else if is_data_2d d then
            (let scaling = sqrt (real (shape d ! 1 * shape d ! 0))
             in Inr (Some (k_ifft2 K (multiply (k_ifftshift K d) scaling))))
          else Inl NotImplementedError)"

definition remove_one_slash :: "string \<Rightarrow> string" where
  "remove_one_slash s = (if take 2 s = ''1/'' then drop 2 s else ''1/'' @ s)"

definition ifft_calibration :: "calibration \<times> nat \<Rightarrow> error + calibration" where
  "ifft_calibration cn =
     (case cn of (c, n) \<Rightarrow>
        (case py_div 1 (scale c * real n) of
           Inl e \<Rightarrow> Inl e
         | Inr sc \<Rightarrow> Inr \<lparr>offset = 0, scale = sc, units = remove_one_slash (units c)\<rparr>))"

definition function_ifft ::
  "kernel \<Rightarrow> nat \<Rightarrow> data_and_metadata \<Rightarrow> error + data_and_metadata option" where
  "function_ifft K now dm =
     (case (data dm, dimensional_calibrations dm) of
        (Some d, Some src) \<Rightarrow>
          if \<not> is_shape_and_dtype_valid (data_shape dm) (data_dtype dm) then Inr None
          else if length src \<noteq>
                  length (dimensional_shape_from_shape_and_dtype (shape d) (dtype d))
          then Inl AssertionError
          else
            (case map_result ifft_calibration (zip src (shape d)) of
               Inl e \<Rightarrow> Inl e
             | Inr cals \<Rightarrow>
                 (case ifft_calculate_data K dm of
                    Inl e \<Rightarrow> Inl e
                  | Inr r \<Rightarrow>
                      Inr (Some (new_data_and_metadata r uncalibrated (Some cals) [] now))))
      | _ \<Rightarrow> Inr None)"

subsection \<open>Array slicing\<close>

text \<open>The consecutive blocks of \<open>n\<close> elements of a list.\<close>

definition chunks :: "nat \<Rightarrow> 'a list \<Rightarrow> 'a list list" where
  "chunks n xs = map (\<lambda>i. take n (drop (i * n) xs)) [0..<length xs div n]"

text \<open>
  A bound of a Python slice on an axis of length \<open>n\<close>: a negative bound counts from
  the end, and the bound is clipped to the axis.
\<close>

definition slice_bound :: "nat \<Rightarrow> int \<Rightarrow> nat" where
  "slice_bound n i = nat (if i < 0 then max (i + int n) 0 else min i (int n))"

text \<open>\<^verbatim>\<open>data[lo:hi].copy()\<close>; an array of no axis cannot be sliced.\<close>

definition slice_axis0 :: "ndarray \<Rightarrow> int \<Rightarrow> int \<Rightarrow> error + ndarray" where
  "slice_axis0 a lo hi =
     (case shape a of
        [] \<Rightarrow> Inl IndexError
      | n # rest \<Rightarrow>
          (let l = slice_bound n lo; h = slice_bound n hi; inner = prod_list rest
           in Inr \<lparr>shape = (h - l) # rest, dtype = dtype a,
                   elems = take ((h - l) * inner) (drop (l * inner) (elems a))\<rparr>))"

text \<open>\<^verbatim>\<open>data[lo0:hi0, lo1:hi1].copy()\<close>; the array needs two axes.\<close>

definition slice_axis01 :: "ndarray \<Rightarrow> int \<Rightarrow> int \<Rightarrow> int \<Rightarrow> int \<Rightarrow> error + ndarray" where
  "slice_axis01 a lo0 hi0 lo1 hi1 =
     (case shape a of
        n0 # n1 # rest \<Rightarrow>
          (let l0 = slice_bound n0 lo0; h0 = slice_bound n0 hi0;
               l1 = slice_bound n1 lo1; h1 = slice_bound n1 hi1;
               inner = prod_list rest;
               rows = take (h0 - l0) (drop l0 (chunks (n1 * inner) (elems a)))
           in Inr \<lparr>shape = (h0 - l0) # (h1 - l1) # rest, dtype = dtype a,
                   elems = concat (map (\<lambda>row. take ((h1 - l1) * inner) (drop (l1 * inner) row))
                                       rows)\<rparr>)
      | _ \<Rightarrow> Inl IndexError)"

subsection \<open>Crop\<close>

type_synonym bounds = "(real \<times> real) \<times> (real \<times> real)"

definition crop_calculate_data :: "data_and_metadata \<Rightarrow> bounds \<Rightarrow> error + ndarray option" where
  "crop_calculate_data dm bounds =
     (case data dm of
        None \<Rightarrow> Inr None
      | Some d \<Rightarrow>
          if \<not> is_data_valid (Some d) then Inr None
          else if length (shape d) < 2 then Inl IndexError
          else
            (let b00 = py_int (real (shape d ! 0) * fst (fst bounds));
                 b01 = py_int (real (shape d ! 1) * snd (fst bounds));
                 b10 = py_int (real (shape d ! 0) * fst (snd bounds));
                 b11 = py_int (real (shape d ! 1) * snd (snd bounds))
             in (case slice_axis01 d b00 (b00 + b10) b01 (b01 + b11) of
                   Inl e \<Rightarrow> Inl e
                 | Inr r \<Rightarrow> Inr (Some r))))"

text \<open>
  The body of the loop of \<^verbatim>\<open>function_crop\<close> at position \<open>index\<close>, where
  \<^verbatim>\<open>bounds[0][index]\<close> is read from a pair.
\<close>

definition crop_calibration :: "nat list \<Rightarrow> bounds \<Rightarrow> nat \<times> calibration \<Rightarrow> calibration" where
  "crop_calibration s bounds ic =
     (case ic of (index, c) \<Rightarrow>
        \<lparr>offset = offset c
            + real (s ! index) * (if index = 0 then fst (fst bounds) else snd (fst bounds))
              * scale c,
         scale = scale c, units = units c\<rparr>)"

definition function_crop ::
  "nat \<Rightarrow> data_and_metadata \<Rightarrow> bounds \<Rightarrow> error + data_and_metadata option" where
  "function_crop now dm bounds =
     (case (data dm, dimensional_calibrations dm) of
        (Some d, Some cals) \<Rightarrow>
          if \<not> is_shape_and_dtype_valid (data_shape dm) (data_dtype dm) then Inr None
          else if length (shape d) < 2 then Inl IndexError
          else if 2 < length cals then Inl IndexError
          else
            (case crop_calculate_data dm bounds of
               Inl e \<Rightarrow> Inl e
             | Inr r \<Rightarrow>
                 Inr (Some (new_data_and_metadata r (intensity_calibration dm)
                       (Some (map (crop_calibration (shape d) bounds) (enumerate 0 cals)))
                       (metadata dm) now)))
      | _ \<Rightarrow> Inr None)"

definition crop_interval_calculate_data ::
  "data_and_metadata \<Rightarrow> real \<times> real \<Rightarrow> error + ndarray option" where
  "crop_interval_calculate_data dm interval =
     (case data dm of
        None \<Rightarrow> Inr None
      | Some d \<Rightarrow>
          if \<not> is_data_valid (Some d) then Inr None
          else
            (let i0 = py_int (real (shape d ! 0) * fst interval);
                 i1 = py_int (real (shape d ! 0) * snd interval)
             in (case slice_axis0 d i0 i1 of
                   Inl e \<Rightarrow> Inl e
                 | Inr r \<Rightarrow> Inr (Some r))))"

definition function_crop_interval ::
  "nat \<Rightarrow> data_and_metadata \<Rightarrow> real \<times> real \<Rightarrow> error + data_and_metadata option" where
  "function_crop_interval now dm interval =
     (case (data dm, dimensional_calibrations dm) of
        (Some d, Some cals) \<Rightarrow>
          if \<not> is_shape_and_dtype_valid (data_shape dm) (data_dtype dm) then Inr None
          else
            (let interval_int0 = py_int (real (shape d ! 0) * fst interval)
             in (case cals of
                   [] \<Rightarrow> Inl IndexError
                 | c # _ \<Rightarrow>
                     (let cropped =
                            \<lparr>offset = offset c
                               + real (shape d ! 0) * real_of_int interval_int0 * scale c,
                             scale = scale c, units = units c\<rparr>
                      in (case crop_interval_calculate_data dm interval of
                            Inl e \<Rightarrow> Inl e
                          | Inr r \<Rightarrow>
                              Inr (Some (new_data_and_metadata r (intensity_calibration dm)
                                    (Some [cropped]) (metadata dm) now))))))
      | _ \<Rightarrow> Inr None)"

subsection \<open>Pick\<close>

text \<open>
  The shape argument of \<^verbatim>\<open>numpy.zeros\<close> as Python passes it: an integer, or a tuple
  whose members are again shape arguments.
\<close>

datatype shape_arg = Dim int | Dims "shape_arg list"

definition shape_arg_of_shape :: "nat list \<Rightarrow> shape_arg" where
  "shape_arg_of_shape s = Dims (map (\<lambda>n. Dim (int n)) s)"

text \<open>
  \<^verbatim>\<open>numpy.zeros(shape, dtype)\<close>: the shape is an integer or a sequence of integers. A
  member of the sequence that is itself a tuple cannot be read as an integer, which
  numpy answers with a \<^verbatim>\<open>TypeError\<close>; a negative extent is a \<^verbatim>\<open>ValueError\<close>.
\<close>

fun dim_of :: "shape_arg \<Rightarrow> error + nat" where
  "dim_of (Dim n) = (if n < 0 then Inl ValueError else Inr (nat n))"
| "dim_of (Dims xs) = Inl TypeError"

definition numpy_zeros :: "shape_arg \<Rightarrow> dtype \<Rightarrow> error + ndarray" where
  "numpy_zeros sa t =
     (case (case sa of Dim n \<Rightarrow> map_result dim_of [Dim n] | Dims xs \<Rightarrow> map_result dim_of xs) of
        Inl e \<Rightarrow> Inl e
      | Inr s \<Rightarrow> Inr \<lparr>shape = s, dtype = t, elems = replicate (prod_list s) 0\<rparr>)"

text \<open>
  \<^verbatim>\<open>data[:, y, x].copy()\<close> on an array of three axes, for \<open>y\<close> and \<open>x\<close> inside the last
  two axes.
\<close>

definition take_column :: "ndarray \<Rightarrow> nat \<Rightarrow> nat \<Rightarrow> ndarray" where
  "take_column a y x =
     (let d = shape a ! 0; h = shape a ! 1; w = shape a ! 2
      in \<lparr>shape = [d], dtype = dtype a,
          elems = map (\<lambda>k. elems a ! (k * h * w + y * w + x)) [0..<d]\<rparr>)"

text \<open>
  Modelled from the spec: \<^verbatim>\<open>Geometry.IntPoint\<close> is imported by the source and not
  defined in it; the spec names it an "int point", a typed container of integer
  coordinates. Its two coordinates are read here as Python's \<^verbatim>\<open>int\<close> of the values
  given.
\<close>

definition pick_calculate_data ::
  "data_and_metadata \<Rightarrow> real \<times> real \<Rightarrow> error + ndarray option" where
  "pick_calculate_data dm position =
     (case data dm of
        None \<Rightarrow> Inr None
      | Some d \<Rightarrow>
          if \<not> is_data_valid (Some d) then Inr None
          else if length (shape d) \<noteq> 3 then Inr None
          else
            (let position_i_y = py_int (fst position * real (shape d ! 1));
                 position_i_x = py_int (snd position * real (shape d ! 2))
             in if 0 \<le> position_i_y \<and> position_i_y < int (shape d ! 1)
                   \<and> 0 \<le> position_i_x \<and> position_i_x < int (shape d ! 2)
                then Inr (Some (take_column d (nat position_i_y) (nat position_i_x)))
                else
                  (case numpy_zeros (Dims [shape_arg_of_shape (take (length (shape d) - 2)
                                                                   (shape d))])
                          (dtype d) of
                     Inl e \<Rightarrow> Inl e
                   | Inr z \<Rightarrow> Inr (Some z))))"

definition function_pick ::
  "nat \<Rightarrow> data_and_metadata \<Rightarrow> real \<times> real \<Rightarrow> error + data_and_metadata option" where
  "function_pick now dm position =
     (case (data dm, dimensional_calibrations dm) of
        (Some d, Some cals) \<Rightarrow>
          if \<not> is_shape_and_dtype_valid (data_shape dm) (data_dtype dm) then Inr None
          else if length (shape d) \<noteq> 3 then Inr None
          else
            (case pick_calculate_data dm position of
               Inl e \<Rightarrow> Inl e
             | Inr r \<Rightarrow>
                 Inr (Some (new_data_and_metadata r (intensity_calibration dm)
                       (Some (take (length cals - 2) cals)) (metadata dm) now)))
      | _ \<Rightarrow> Inr None)"

subsection \<open>Concatenate, hstack, vstack\<close>

text \<open>
  \<^verbatim>\<open>numpy.concatenate(arrays, axis)\<close>: the arrays have the same number of axes, at
  least one, the axis lies inside them, and every extent but the one on the axis
  agrees with the first array's; anything else raises. The extents on the axis add up.
\<close>

definition numpy_concatenate :: "kernel \<Rightarrow> ndarray list \<Rightarrow> int \<Rightarrow> error + ndarray" where
  "numpy_concatenate K arrays axis =
     (case arrays of
        [] \<Rightarrow> Inl ValueError
      | a # rest \<Rightarrow>
          (let nd = length (shape a)
           in if nd = 0 then Inl ValueError
              else if axis < - int nd \<or> int nd \<le> axis then Inl AxisError
              else if list_ex (\<lambda>b. length (shape b) \<noteq> nd) rest then Inl ValueError
              else
                (let ax = nat (if axis < 0 then axis + int nd else axis)
                 in if list_ex (\<lambda>b. (shape b)[ax := 0] \<noteq> (shape a)[ax := 0]) rest
                    then Inl ValueError
                    else
                      (let outer = prod_list (take ax (shape a))
                       in Inr \<lparr>shape = (shape a)[ax := sum_list (map (\<lambda>b. shape b ! ax) arrays)],
                               dtype = k_result_type K (map dtype arrays),
                               elems = concat (map concat (transpose
                                   (map (\<lambda>b. chunks (length (elems b) div outer) (elems b))
                                        arrays)))\<rparr>))))"

definition concatenate_calculate_data ::
  "kernel \<Rightarrow> data_and_metadata list \<Rightarrow> int \<Rightarrow> nat list option \<Rightarrow> error + ndarray option" where
  "concatenate_calculate_data K data_and_metadata_list axis partial_shape =
     (case those (map data data_and_metadata_list) of
        None \<Rightarrow> Inr None
      | Some data_list \<Rightarrow>
          if list_all (\<lambda>dm. map_option (drop 1) (data_shape dm) = map_option (drop 1) partial_shape)
               data_and_metadata_list
          then (case numpy_concatenate K data_list axis of
                  Inl e \<Rightarrow> Inl e
                | Inr r \<Rightarrow> Inr (Some r))
          else Inr None)"

text \<open>
  The second guard of \<^verbatim>\<open>function_concatenate\<close> is the chained comparison
  \<^verbatim>\<open>data_shape != partial_shape[1:] is None\<close>, which Python reads as
  \<^verbatim>\<open>data_shape != partial_shape[1:] and partial_shape[1:] is None\<close>. At that point every
  payload is present, so \<^verbatim>\<open>partial_shape[1:]\<close> is a tuple.
\<close>

definition concatenate_shape_guard :: "data_and_metadata list \<Rightarrow> nat list \<Rightarrow> bool" where
  "concatenate_shape_guard data_and_metadata_list partial_shape =
     list_ex (\<lambda>dm. data_shape dm \<noteq> Some (drop 1 partial_shape)
                  \<and> Some (drop 1 partial_shape) = None) data_and_metadata_list"

definition function_concatenate ::
  "kernel \<Rightarrow> nat \<Rightarrow> data_and_metadata list \<Rightarrow> int \<Rightarrow> error + data_and_metadata option" where
  "function_concatenate K now data_and_metadata_list axis =
     (case data_and_metadata_list of
        [] \<Rightarrow> Inr None
      | first # _ \<Rightarrow>
          if list_ex (\<lambda>dm. data dm = None) data_and_metadata_list then Inr None
          else
            (case data_shape first of
               None \<Rightarrow> Inr None
             | Some partial_shape \<Rightarrow>
                 if concatenate_shape_guard data_and_metadata_list partial_shape then Inr None
                 else
                   (case dimensional_calibrations first of
                      None \<Rightarrow> Inl TypeError
                    | Some cals \<Rightarrow>
                        (case concatenate_calculate_data K data_and_metadata_list axis
                                (Some partial_shape) of
                           Inl e \<Rightarrow> Inl e
                         | Inr r \<Rightarrow>
                             Inr (Some (new_data_and_metadata r (intensity_calibration first)
                                   (Some (map (\<lambda>(index, c). if int index \<noteq> axis then uncalibrated
                                                              else c) (enumerate 0 cals)))
                                   [] now))))))"

definition function_hstack ::
  "kernel \<Rightarrow> nat \<Rightarrow> data_and_metadata list \<Rightarrow> error + data_and_metadata option" where
  "function_hstack K now data_and_metadata_list =
     (case data_and_metadata_list of
        [] \<Rightarrow> Inr None
      | first # _ \<Rightarrow>
          (case data_shape first of
             None \<Rightarrow> Inl TypeError
           | Some partial_shape \<Rightarrow>
               if 2 \<le> length partial_shape
               then function_concatenate K now data_and_metadata_list 1
               else function_concatenate K now data_and_metadata_list 0))"

text \<open>\<^verbatim>\<open>numpy.vstack\<close>: every array is raised to two axes and they are joined on axis 0.\<close>

definition atleast_2d :: "ndarray \<Rightarrow> ndarray" where
  "atleast_2d a =
     (case shape a of
        [] \<Rightarrow> a\<lparr>shape := [1, 1]\<rparr>
      | [n] \<Rightarrow> a\<lparr>shape := [1, n]\<rparr>
      | _ \<Rightarrow> a)"

definition numpy_vstack :: "kernel \<Rightarrow> ndarray list \<Rightarrow> error + ndarray" where
  "numpy_vstack K arrays = numpy_concatenate K (map atleast_2d arrays) 0"

definition vstack_calculate_data ::
  "kernel \<Rightarrow> data_and_metadata list \<Rightarrow> nat list \<Rightarrow> error + ndarray option" where
  "vstack_calculate_data K data_and_metadata_list partial_shape =
     (case those (map data data_and_metadata_list) of
        None \<Rightarrow> Inr None
      | Some data_list \<Rightarrow>
          if partial_shape = [] \<or> list_ex (\<lambda>a. shape a = []) data_list then Inl IndexError
          else if list_all (\<lambda>a. shape a ! 0 = partial_shape ! 0) data_list
          then (case numpy_vstack K data_list of
                  Inl e \<Rightarrow> Inl e
                | Inr r \<Rightarrow> Inr (Some r))
          else Inr None)"

definition function_vstack ::
  "kernel \<Rightarrow> nat \<Rightarrow> data_and_metadata list \<Rightarrow> error + data_and_metadata option" where
  "function_vstack K now data_and_metadata_list =
     (case data_and_metadata_list of
        [] \<Rightarrow> Inr None
      | first # _ \<Rightarrow>
          (case data_shape first of
             None \<Rightarrow> Inl TypeError
           | Some partial_shape \<Rightarrow>
               if 2 \<le> length partial_shape
               then function_concatenate K now data_and_metadata_list 0
               else if list_ex (\<lambda>dm. data dm = None) data_and_metadata_list then Inr None
               else if partial_shape = []
                       \<or> list_ex (\<lambda>dm. data_shape dm = Some []) data_and_metadata_list
               then Inl IndexError
               else
                 (case dimensional_calibrations first of
                    None \<Rightarrow> Inl TypeError
                  | Some [] \<Rightarrow> Inl IndexError
                  | Some (c # _) \<Rightarrow>
                      (case vstack_calculate_data K data_and_metadata_list partial_shape of
                         Inl e \<Rightarrow> Inl e
                       | Inr r \<Rightarrow>
                           Inr (Some (new_data_and_metadata r (intensity_calibration first)
                                 (Some [uncalibrated, c]) [] now))))))"

subsection \<open>Reshape\<close>

text \<open>
  \<^verbatim>\<open>numpy.reshape(data, shape)\<close>: at most one extent may be \<open>-1\<close>, which stands for the
  extent that makes the element counts agree; no other extent may be negative, and
  the element counts have to agree.
\<close>

definition numpy_reshape :: "ndarray \<Rightarrow> int list \<Rightarrow> error + ndarray" where
  "numpy_reshape a new_shape =
     (let total = prod_list (shape a);
          known = nat (prod_list (filter (\<lambda>n. n \<noteq> - 1) new_shape))
      in if 1 < length (filter (\<lambda>n. n = - 1) new_shape) then Inl ValueError
         else if list_ex (\<lambda>n. n < - 1) new_shape then Inl ValueError
         else if - 1 \<in> set new_shape then
           (if known = 0 \<or> total mod known \<noteq> 0 then Inl ValueError
            else Inr (a\<lparr>shape := map (\<lambda>n. if n = - 1 then total div known else nat n)
                                      new_shape\<rparr>))
         else if known \<noteq> total then Inl ValueError
         else Inr (a\<lparr>shape := map nat new_shape\<rparr>))"

definition reshape_calculate_data ::
  "data_and_metadata \<Rightarrow> int list \<Rightarrow> error + ndarray option" where
  "reshape_calculate_data dm new_shape =
     (case data dm of
        None \<Rightarrow> Inr None
      | Some d \<Rightarrow>
          if \<not> is_data_valid (Some d) then Inr None
          else (case numpy_reshape d new_shape of
                  Inl e \<Rightarrow> Inl e
                | Inr r \<Rightarrow> Inr (Some r)))"

text \<open>
  The loop of the first special case: a \<open>-1\<close> extent gets an uncalibrated placeholder,
  every other extent the next source calibration (\<^verbatim>\<open>dimensional_calibrations[index]\<close>,
  \<^verbatim>\<open>index += 1\<close>).
\<close>

fun reshape_extend :: "int list \<Rightarrow> calibration list \<Rightarrow> error + calibration list" where
  "reshape_extend [] cals = Inr []"
| "reshape_extend (dimension # rest) cals =
     (if dimension = - 1 then
        (case reshape_extend rest cals of
           Inl e \<Rightarrow> Inl e
         | Inr out \<Rightarrow> Inr (uncalibrated # out))
      else
        (case cals of
           [] \<Rightarrow> Inl IndexError
         | c # cals' \<Rightarrow>
             (case reshape_extend rest cals' of
                Inl e \<Rightarrow> Inl e
              | Inr out \<Rightarrow> Inr (c # out))))"

text \<open>
  The two products \<^verbatim>\<open>total_old_pixels\<close> and \<^verbatim>\<open>total_new_pixels\<close> of the source are
  computed and never read; they are left out.
\<close>

definition reshape_calibrations ::
  "nat list \<Rightarrow> int list \<Rightarrow> calibration list \<Rightarrow> error + calibration list" where
  "reshape_calibrations s new_shape cals =
     (if length s + 1 = length new_shape \<and> - 1 \<in> set new_shape
      then reshape_extend new_shape cals
      else if int (length s) - 1 = int (length new_shape) \<and> 1 \<in> set s
      then Inr (map snd (filter (\<lambda>(dimension, c). dimension \<noteq> 1) (zip s cals)))
      else Inr (replicate (length new_shape) uncalibrated))"

definition function_reshape ::
  "nat \<Rightarrow> data_and_metadata \<Rightarrow> int list \<Rightarrow> error + data_and_metadata option" where
  "function_reshape now dm new_shape =
     (case (data dm, dimensional_calibrations dm) of
        (Some d, Some cals) \<Rightarrow>
          if \<not> is_shape_and_dtype_valid (data_shape dm) (data_dtype dm) then Inr None
          else
            (case reshape_calibrations (shape d) new_shape cals of
               Inl e \<Rightarrow> Inl e
             | Inr new_cals \<Rightarrow>
                 (case reshape_calculate_data dm new_shape of
                    Inl e \<Rightarrow> Inl e
                  | Inr r \<Rightarrow>
                      Inr (Some (new_data_and_metadata r (intensity_calibration dm)
                            (Some new_cals) (metadata dm) now))))
      | _ \<Rightarrow> Inr None)"

text \<open>The rank of a result: the number of data axes of its payload.\<close>

definition rank :: "ndarray \<Rightarrow> nat" where
  "rank a = length (dimensional_shape_from_shape_and_dtype (shape a) (dtype a))"

subsection \<open>Spatial filters\<close>

text \<open>\<^verbatim>\<open>data[..., c]\<close>: the plane of channel \<open>c\<close> of an array whose last axis is the channel.\<close>

definition channel :: "ndarray \<Rightarrow> nat \<Rightarrow> ndarray" where
  "channel a c =
     \<lparr>shape = butlast (shape a), dtype = dtype a,
      elems = map (\<lambda>px. px ! c) (chunks (last (shape a)) (elems a))\<rparr>"

text \<open>
  \<^verbatim>\<open>numpy.empty(data.shape[:-1] + (n,), numpy.uint8)\<close> followed by one assignment
  \<^verbatim>\<open>out[..., c] = plane\<close> per channel. A plane whose shape is not the shape of the
  image cannot be stored (broadcasting is not modelled): \<^verbatim>\<open>ValueError\<close>.
\<close>

definition stack_channels :: "nat list \<Rightarrow> ndarray list \<Rightarrow> error + ndarray" where
  "stack_channels s planes =
     (if list_ex (\<lambda>p. shape p \<noteq> s) planes then Inl ValueError
      else Inr \<lparr>shape = s @ [length planes], dtype = UInt8,
                elems = concat (transpose (map elems planes))\<rparr>)"

text \<open>
  The body that \<^verbatim>\<open>function_sobel\<close>, \<^verbatim>\<open>function_laplace\<close>, \<^verbatim>\<open>function_median_filter\<close> and
  \<^verbatim>\<open>function_uniform_filter\<close> repeat, for the scipy routine \<open>f\<close>.
\<close>

definition calculate_filtered ::
  "(ndarray \<Rightarrow> ndarray) \<Rightarrow> ndarray option \<Rightarrow> error + ndarray option" where
  "calculate_filtered f dopt =
     (case dopt of
        None \<Rightarrow> Inr None
      | Some d \<Rightarrow>
          if \<not> is_data_valid (Some d) then Inr None
          else if is_shape_and_dtype_rgb (shape d) (dtype d) then
            (case stack_channels (butlast (shape d))
                    [f (channel d 0), f (channel d 1), f (channel d 2)] of
               Inl e \<Rightarrow> Inl e
             | Inr rgb \<Rightarrow> Inr (Some rgb))
          else if is_shape_and_dtype_rgba (shape d) (dtype d) then
            (case stack_channels (butlast (shape d))
                    [f (channel d 0), f (channel d 1), f (channel d 2), channel d 3] of
               Inl e \<Rightarrow> Inl e
             | Inr rgba \<Rightarrow> Inr (Some rgba))
          else Inr (Some (f d)))"

text \<open>The return statement the filters share: the source's calibrations and metadata.\<close>

definition pass_through ::
  "nat \<Rightarrow> data_and_metadata \<Rightarrow> error + ndarray option \<Rightarrow> error + data_and_metadata" where
  "pass_through now dm payload =
     (case payload of
        Inl e \<Rightarrow> Inl e
      | Inr r \<Rightarrow>
          Inr (new_data_and_metadata r (intensity_calibration dm) (dimensional_calibrations dm)
                 (metadata dm) now))"

definition function_sobel :: "kernel \<Rightarrow> nat \<Rightarrow> data_and_metadata \<Rightarrow> error + data_and_metadata" where
  "function_sobel K now dm = pass_through now dm (calculate_filtered (k_sobel K) (data dm))"

definition function_laplace :: "kernel \<Rightarrow> nat \<Rightarrow> data_and_metadata \<Rightarrow> error + data_and_metadata" where
  "function_laplace K now dm = pass_through now dm (calculate_filtered (k_laplace K) (data dm))"

definition gaussian_blur_calculate_data :: "kernel \<Rightarrow> real \<Rightarrow> ndarray option \<Rightarrow> error + ndarray option" where
  "gaussian_blur_calculate_data K sigma dopt =
     (case dopt of
        None \<Rightarrow> Inr None
      | Some d \<Rightarrow>
          if \<not> is_data_valid (Some d) then Inr None
          else Inr (Some (k_gaussian_filter K d sigma)))"

definition function_gaussian_blur ::
  "kernel \<Rightarrow> nat \<Rightarrow> data_and_metadata \<Rightarrow> real \<Rightarrow> error + data_and_metadata" where
  "function_gaussian_blur K now dm sigma =
     pass_through now dm (gaussian_blur_calculate_data K sigma (data dm))"

text \<open>\<^verbatim>\<open>size = max(min(int(size), 999), 1)\<close>, the first statement of both filters.\<close>

definition filter_size :: "real \<Rightarrow> int" where
  "filter_size sz = max (min (py_int sz) 999) 1"

definition function_median_filter ::
  "kernel \<Rightarrow> nat \<Rightarrow> data_and_metadata \<Rightarrow> real \<Rightarrow> error + data_and_metadata" where
  "function_median_filter K now dm sz =
     (let sz = filter_size sz
      in pass_through now dm (calculate_filtered (\<lambda>a. k_median_filter K a sz) (data dm)))"

definition function_uniform_filter ::
  "kernel \<Rightarrow> nat \<Rightarrow> data_and_metadata \<Rightarrow> real \<Rightarrow> error + data_and_metadata" where
  "function_uniform_filter K now dm sz =
     (let sz = filter_size sz
      in pass_through now dm (calculate_filtered (\<lambda>a. k_uniform_filter K a sz) (data dm)))"

subsection \<open>Line profile\<close>

text \<open>\<^verbatim>\<open>numpy.sum(samples, 0)\<close> on an array of at least one axis.\<close>

definition sum_axis0 :: "ndarray \<Rightarrow> ndarray" where
  "sum_axis0 a =
     \<lparr>shape = tl (shape a), dtype = dtype a,
      elems = map sum_list (transpose (chunks (prod_list (tl (shape a))) (elems a)))\<rparr>"

type_synonym vector = "(real \<times> real) \<times> (real \<times> real)"

definition line_profile_calculate_data ::
  "kernel \<Rightarrow> data_and_metadata \<Rightarrow> vector \<Rightarrow> int \<Rightarrow> error + ndarray option" where
  "line_profile_calculate_data K dm vector integration_width =
     (case data dm of
        None \<Rightarrow> Inr None
      | Some d0 \<Rightarrow>
          if \<not> is_data_valid (Some d0) then Inr None
          else
            (let d = (if is_shape_and_dtype_rgb_type (shape d0) (dtype d0)
                      then k_convert_to_grayscale K d0 else d0)
             in if length (shape d) < 2 then Inl IndexError
                else
                  (let start = fst vector; end = snd vector;
                       actual_integration_width =
                         min (max (int (shape d ! 0)) (int (shape d ! 1))) integration_width;
                       start_data = (py_int (real (shape d ! 0) * fst start),
                                     py_int (real (shape d ! 1) * snd start));
                       end_data = (py_int (real (shape d ! 0) * fst end),
                                   py_int (real (shape d ! 1) * snd end));
                       len = sqrt (real_of_int ((snd end_data - snd start_data)\<^sup>2
                                                + (fst end_data - fst start_data)\<^sup>2))
                   in if 1 < len then
                        (let samples = k_map_coordinates K d start_data end_data
                                         actual_integration_width
                         in if 1 < length (shape samples)
                            then Inr (Some (multiply (sum_axis0 samples)
                                              (1 / real_of_int actual_integration_width)))
                            else Inr (Some samples))
                      else Inr (Some \<lparr>shape = [1], dtype = Float64, elems = [0]\<rparr>))))"

definition function_line_profile ::
  "kernel \<Rightarrow> nat \<Rightarrow> data_and_metadata \<Rightarrow> vector \<Rightarrow> real \<Rightarrow> error + data_and_metadata option" where
  "function_line_profile K now dm vector integration_width =
     (let integration_width = py_int integration_width
      in if \<not> 0 < integration_width then Inl AssertionError
         else
           (case (data dm, dimensional_calibrations dm) of
              (Some d, Some cals) \<Rightarrow>
                if \<not> is_shape_and_dtype_valid (data_shape dm) (data_dtype dm) then Inr None
                else if length cals \<noteq> 2 then Inr None
                else
                  (case line_profile_calculate_data K dm vector integration_width of
                     Inl e \<Rightarrow> Inl e
                   | Inr r \<Rightarrow>
                       Inr (Some (new_data_and_metadata r (intensity_calibration dm)
                             (Some [\<lparr>offset = 0, scale = scale (cals ! 1),
                                     units = units (cals ! 1)\<rparr>])
                             (metadata dm) now)))
            | _ \<Rightarrow> Inr None))"

subsection \<open>The scalar adapter\<close>

text \<open>
  Modelled from the spec: \<^verbatim>\<open>DataAndMetadata.ScalarAndMetadata\<close> is imported by the
  source and not defined in it. The spec: "a degenerate Calibrated Array Value whose
  payload is a single scalar", whose "payload is a deferred zero-argument
  computation". The computation is the field \<open>value_fn\<close>, a function of \<open>unit\<close> whose
  call may raise.
\<close>

record 'v scalar_and_metadata =
  value_fn :: "unit \<Rightarrow> error + 'v"
  calibration_of :: calibration
  metadata_of :: metadata
  timestamp_of :: nat

definition function_scalar ::
  "(ndarray option \<Rightarrow> error + 'v) \<Rightarrow> nat \<Rightarrow> data_and_metadata \<Rightarrow> 'v scalar_and_metadata" where
  "function_scalar op now dm =
     \<lparr>value_fn = (\<lambda>_. op (data dm)), calibration_of = intensity_calibration dm,
      metadata_of = metadata dm, timestamp_of = now\<rparr>"

subsection \<open>Concrete inputs\<close>

text \<open>
  A kernel whose routines return the array they are given (the samples of a line
  profile are the image itself). It serves to run the entries on concrete inputs
  where the values a routine returns play no part.
\<close>

definition plain_kernel :: kernel where
  "plain_kernel =
     \<lparr>k_fft = (\<lambda>a. a), k_fft2 = (\<lambda>a. a), k_ifft = (\<lambda>a. a), k_ifft2 = (\<lambda>a. a),
      k_fftshift = (\<lambda>a. a), k_ifftshift = (\<lambda>a. a),
      k_sobel = (\<lambda>a. a), k_laplace = (\<lambda>a. a),
      k_gaussian_filter = (\<lambda>a sigma. a),
      k_median_filter = (\<lambda>a sz. a), k_uniform_filter = (\<lambda>a sz. a),
      k_convert_to_grayscale = (\<lambda>a. a),
      k_map_coordinates = (\<lambda>a start end n. a),
      k_result_type = (\<lambda>ts. case ts of [] \<Rightarrow> Float64 | t # _ \<Rightarrow> t)\<rparr>"

definition nm :: calibration where
  "nm = \<lparr>offset = 0, scale = 1, units = ''nm''\<rparr>"

definition counts :: calibration where
  "counts = \<lparr>offset = 0, scale = 2, units = ''e''\<rparr>"

text \<open>An array of the given shape and element type, filled with zeros.\<close>

definition zeros :: "nat list \<Rightarrow> dtype \<Rightarrow> ndarray" where
  "zeros s t = \<lparr>shape = s, dtype = t, elems = replicate (prod_list s) 0\<rparr>"

definition float_image :: "nat list \<Rightarrow> calibration list \<Rightarrow> data_and_metadata" where
  "float_image s cals =
     \<lparr>data = Some (zeros s Float64), intensity_calibration = counts,
      dimensional_calibrations = Some cals, metadata = [], timestamp = 0\<rparr>"

text \<open>An RGBA image of one pixel, red 10, green 20, blue 30, alpha 255.\<close>

definition rgba_pixel :: data_and_metadata where
  "rgba_pixel =
     \<lparr>data = Some \<lparr>shape = [1, 1, 4], dtype = UInt8, elems = [10, 20, 30, 255]\<rparr>,
      intensity_calibration = counts, dimensional_calibrations = Some [nm, nm],
      metadata = [], timestamp = 0\<rparr>"

text \<open>A routine that returns the array it is given with every element replaced by 7.\<close>

definition all_seven :: "ndarray \<Rightarrow> ndarray" where
  "all_seven a = a\<lparr>elems := map (\<lambda>_. 7) (elems a)\<rparr>"




subsection \<open>Generators\<close>

text \<open>
  \<^verbatim>\<open>numpy.linspace(start, stop, num, endpoint)\<close> for a number of samples that is not
  negative: the step is the span over \<open>num - 1\<close> (over \<open>num\<close> without the end point), and
  the span itself when that divisor is 0.
\<close>

definition linspace_values :: "real \<Rightarrow> real \<Rightarrow> nat \<Rightarrow> bool \<Rightarrow> real list" where
  "linspace_values start stop num endpoint =
     (let divisor = (if endpoint then num - 1 else num);
          step = (if 0 < divisor then (stop - start) / real divisor else stop - start)
      in map (\<lambda>i. start + real i * step) [0..<num])"

text \<open>A negative number of samples is a \<^verbatim>\<open>ValueError\<close>.\<close>

definition numpy_linspace :: "real \<Rightarrow> real \<Rightarrow> int \<Rightarrow> bool \<Rightarrow> error + ndarray" where
  "numpy_linspace start stop num endpoint =
     (if num < 0 then Inl ValueError
      else Inr \<lparr>shape = [nat num], dtype = Float64,
                elems = map complex_of_real (linspace_values start stop (nat num) endpoint)\<rparr>)"

text \<open>
  The two coordinate vectors that \<^verbatim>\<open>column\<close>, \<^verbatim>\<open>row\<close> and \<^verbatim>\<open>radius\<close> hand to
  \<^verbatim>\<open>numpy.meshgrid(..., sparse=True)\<close>: the first over the second axis of the source,
  the second over its first axis. Reading \<^verbatim>\<open>data_shape(...)[0]\<close> or \<^verbatim>\<open>[1]\<close> raises when
  the shape is absent or has fewer than two axes.
\<close>

definition grid_vectors ::
  "data_and_metadata \<Rightarrow> (nat \<Rightarrow> real) \<Rightarrow> (nat \<Rightarrow> real) \<Rightarrow> (nat \<Rightarrow> real) \<Rightarrow> (nat \<Rightarrow> real)
     \<Rightarrow> error + (real list \<times> real list)" where
  "grid_vectors dm start_0 stop_0 start_1 stop_1 =
     (case data_shape dm of
        None \<Rightarrow> Inl TypeError
      | Some s \<Rightarrow>
          if length s < 2 then Inl IndexError
          else Inr (linspace_values (start_1 (s ! 1)) (stop_1 (s ! 1)) (s ! 1) True,
                    linspace_values (start_0 (s ! 0)) (stop_0 (s ! 0)) (s ! 0) True))"

definition column_calculate_data ::
  "data_and_metadata \<Rightarrow> int option \<Rightarrow> int option \<Rightarrow> error + ndarray option" where
  "column_calculate_data dm start stop =
     (case grid_vectors dm
             (\<lambda>n. case start of Some v \<Rightarrow> real_of_int v | None \<Rightarrow> 0)
             (\<lambda>n. case stop of Some v \<Rightarrow> real_of_int v | None \<Rightarrow> real n)
             (\<lambda>n. case start of Some v \<Rightarrow> real_of_int v | None \<Rightarrow> 0)
             (\<lambda>n. case stop of Some v \<Rightarrow> real_of_int v | None \<Rightarrow> real n) of
        Inl e \<Rightarrow> Inl e
      | Inr (xs, ys) \<Rightarrow>
          Inr (Some \<lparr>shape = [1, length xs], dtype = Float64, elems = map complex_of_real xs\<rparr>))"

definition column ::
  "nat \<Rightarrow> data_and_metadata \<Rightarrow> int option \<Rightarrow> int option \<Rightarrow> error + data_and_metadata" where
  "column now dm start stop = pass_through now dm (column_calculate_data dm start stop)"

definition row_calculate_data ::
  "data_and_metadata \<Rightarrow> int option \<Rightarrow> int option \<Rightarrow> error + ndarray option" where
  "row_calculate_data dm start stop =
     (case grid_vectors dm
             (\<lambda>n. case start of Some v \<Rightarrow> real_of_int v | None \<Rightarrow> 0)
             (\<lambda>n. case stop of Some v \<Rightarrow> real_of_int v | None \<Rightarrow> real n)
             (\<lambda>n. case start of Some v \<Rightarrow> real_of_int v | None \<Rightarrow> 0)
             (\<lambda>n. case stop of Some v \<Rightarrow> real_of_int v | None \<Rightarrow> real n) of
        Inl e \<Rightarrow> Inl e
      | Inr (xs, ys) \<Rightarrow>
          Inr (Some \<lparr>shape = [length ys, 1], dtype = Float64, elems = map complex_of_real ys\<rparr>))"

definition row ::
  "nat \<Rightarrow> data_and_metadata \<Rightarrow> int option \<Rightarrow> int option \<Rightarrow> error + data_and_metadata" where
  "row now dm start stop = pass_through now dm (row_calculate_data dm start stop)"

definition radius_calculate_data :: "data_and_metadata \<Rightarrow> bool \<Rightarrow> error + ndarray option" where
  "radius_calculate_data dm normalise =
     (case grid_vectors dm
             (\<lambda>n. if normalise then - 1 else - real n * 0.5)
             (\<lambda>n. - (if normalise then - 1 else - real n * 0.5))
             (\<lambda>n. if normalise then - 1 else - real n * 0.5)
             (\<lambda>n. - (if normalise then - 1 else - real n * 0.5)) of
        Inl e \<Rightarrow> Inl e
      | Inr (xs, ys) \<Rightarrow>
          Inr (Some \<lparr>shape = [length ys, length xs], dtype = Float64,
                     elems = concat (map (\<lambda>irow. map (\<lambda>icol.
                               complex_of_real (sqrt (icol * icol + irow * irow))) xs) ys)\<rparr>))"

definition radius :: "nat \<Rightarrow> data_and_metadata \<Rightarrow> bool \<Rightarrow> error + data_and_metadata" where
  "radius now dm normalise = pass_through now dm (radius_calculate_data dm normalise)"

text \<open>
  Modelled from the spec: \<^verbatim>\<open>DataAndMetadata.new_data_and_metadata\<close> called with the
  payload alone. The spec pairs the generators with "uncalibrated calibration
  defaults": the intensity calibration and one calibration per data axis are
  uncalibrated, the metadata is empty and the timestamp is the current time.
\<close>

definition new_data_and_metadata_default :: "ndarray \<Rightarrow> nat \<Rightarrow> data_and_metadata" where
  "new_data_and_metadata_default a now =
     new_data_and_metadata (Some a) uncalibrated (Some (replicate (rank a) uncalibrated)) [] now"

text \<open>The return statement of the generators, whose only argument is the numpy call.\<close>

definition generated :: "nat \<Rightarrow> error + ndarray \<Rightarrow> error + data_and_metadata" where
  "generated now payload =
     (case payload of
        Inl e \<Rightarrow> Inl e
      | Inr a \<Rightarrow> Inr (new_data_and_metadata_default a now))"

text \<open>
  \<^verbatim>\<open>numpy.full(shape, fill_value, dtype)\<close>, where the fill value is a scalar, which
  \<^verbatim>\<open>extract_data\<close> hands on as it is; a negative extent is a \<^verbatim>\<open>ValueError\<close>.
\<close>

definition numpy_full :: "int list \<Rightarrow> complex \<Rightarrow> dtype \<Rightarrow> error + ndarray" where
  "numpy_full s fill_value t =
     (if list_ex (\<lambda>n. n < 0) s then Inl ValueError
      else Inr \<lparr>shape = map nat s, dtype = t,
                elems = replicate (prod_list (map nat s)) fill_value\<rparr>)"

definition full ::
  "nat \<Rightarrow> int list \<Rightarrow> complex \<Rightarrow> dtype option \<Rightarrow> error + data_and_metadata" where
  "full now s fill_value t =
     (let t = (case t of Some t' \<Rightarrow> t' | None \<Rightarrow> Float64)
      in generated now (numpy_full s fill_value t))"

text \<open>
  \<^verbatim>\<open>arange\<close>: without a \<open>stop\<close> the source sets \<open>start\<close> to 0 and then \<open>stop\<close> to \<open>start\<close>;
  the three numbers go to \<^verbatim>\<open>numpy.linspace\<close>, the step as the number of samples.
\<close>

definition arange_data :: "int \<Rightarrow> int option \<Rightarrow> int option \<Rightarrow> error + ndarray" where
  "arange_data start stop step =
     (let start = (case stop of None \<Rightarrow> 0 | Some _ \<Rightarrow> start);
          stop = (case stop of None \<Rightarrow> start | Some v \<Rightarrow> v);
          step = (case step of None \<Rightarrow> 1 | Some v \<Rightarrow> v)
      in numpy_linspace (real_of_int start) (real_of_int stop) step True)"

definition arange :: "nat \<Rightarrow> int \<Rightarrow> int option \<Rightarrow> int option \<Rightarrow> error + data_and_metadata" where
  "arange now start stop step = generated now (arange_data start stop step)"

definition linspace :: "nat \<Rightarrow> real \<Rightarrow> real \<Rightarrow> int \<Rightarrow> bool \<Rightarrow> error + data_and_metadata" where
  "linspace now start stop num endpoint =
     generated now (numpy_linspace start stop num endpoint)"

subsection \<open>Further numeric routines\<close>

text \<open>The \<open>axis\<close> argument of \<^verbatim>\<open>function_sum\<close>: absent, one index or a sequence of indices.\<close>

datatype axis_arg = NoAxis | SingleAxis int | ManyAxes "int list"

text \<open>
  More routines of numpy and of the module \<^verbatim>\<open>Image\<close> that are outside the source and
  matter only as payload; a routine that can raise returns a sum. \<open>r_power b y\<close> is
  \<open>b ** y\<close>, \<open>r_average0\<close> is \<^verbatim>\<open>numpy.average(a, 0)\<close>, \<open>r_sum\<close> is \<^verbatim>\<open>numpy.sum\<close>,
  \<open>r_scaled\<close> is \<^verbatim>\<open>Image.scaled\<close>, \<open>r_histogram a bins\<close> is
  \<^verbatim>\<open>numpy.histogram(a, bins=bins)[0].astype(numpy.int)\<close>; \<open>r_autocorrelate\<close>,
  \<open>r_crosscorrelate\<close>, \<open>r_fourier_mask\<close> and \<open>r_rescale\<close> stand for the arithmetic inside
  the \<^verbatim>\<open>calculate_data\<close> of the entry of that name, \<open>r_negative\<close> for \<^verbatim>\<open>-data[:]\<close>.
\<close>

record routines =
  r_power :: "real \<Rightarrow> real \<Rightarrow> complex"
  r_autocorrelate :: "ndarray \<Rightarrow> ndarray"
  r_crosscorrelate :: "ndarray \<Rightarrow> ndarray \<Rightarrow> error + ndarray"
  r_fourier_mask :: "ndarray \<Rightarrow> ndarray \<Rightarrow> error + ndarray"
  r_negative :: "ndarray \<Rightarrow> ndarray"
  r_sum :: "ndarray \<Rightarrow> axis_arg \<Rightarrow> error + ndarray"
  r_average0 :: "ndarray \<Rightarrow> ndarray"
  r_rescale :: "ndarray \<Rightarrow> real \<times> real \<Rightarrow> ndarray"
  r_scaled :: "ndarray \<Rightarrow> int \<times> int \<Rightarrow> error + ndarray"
  r_histogram :: "ndarray \<Rightarrow> int \<Rightarrow> error + ndarray"

definition numpy_logspace ::
  "routines \<Rightarrow> real \<Rightarrow> real \<Rightarrow> int \<Rightarrow> bool \<Rightarrow> real \<Rightarrow> error + ndarray" where
  "numpy_logspace R start stop num endpoint base =
     (if num < 0 then Inl ValueError
      else Inr \<lparr>shape = [nat num], dtype = Float64,
                elems = map (r_power R base) (linspace_values start stop (nat num) endpoint)\<rparr>)"

definition logspace ::
  "routines \<Rightarrow> nat \<Rightarrow> real \<Rightarrow> real \<Rightarrow> int \<Rightarrow> bool \<Rightarrow> real \<Rightarrow> error + data_and_metadata" where
  "logspace R now start stop num endpoint base =
     generated now (numpy_logspace R start stop num endpoint base)"

text \<open>
  \<^verbatim>\<open>apply_dist\<close>: \<open>dist_fn mean stddev\<close> stands for the method
  \<^verbatim>\<open>getattr(dist(loc=mean, scale=stddev), fn)\<close>, which is called on the payload and
  returns an array or raises.
\<close>

definition apply_dist ::
  "(real \<Rightarrow> real \<Rightarrow> ndarray option \<Rightarrow> error + ndarray) \<Rightarrow> nat \<Rightarrow> data_and_metadata
     \<Rightarrow> real \<Rightarrow> real \<Rightarrow> error + data_and_metadata" where
  "apply_dist dist_fn now dm mean stddev = generated now (dist_fn mean stddev (data dm))"

subsection \<open>Correlation and Fourier mask\<close>

definition autocorrelate_calculate_data ::
  "routines \<Rightarrow> data_and_metadata \<Rightarrow> error + ndarray option" where
  "autocorrelate_calculate_data R dm =
     (case data dm of
        None \<Rightarrow> Inr None
      | Some d \<Rightarrow>
          if \<not> is_data_valid (Some d) then Inr None
          else if is_data_2d d then Inr (Some (r_autocorrelate R d))
          else Inr None)"

text \<open>
  The entry takes \<^verbatim>\<open>None\<close> for its input and answers it with \<^verbatim>\<open>None\<close>; the list
  comprehension over \<^verbatim>\<open>data_shape\<close> raises when the shape is absent.
\<close>

definition function_autocorrelate ::
  "routines \<Rightarrow> nat \<Rightarrow> data_and_metadata option \<Rightarrow> error + data_and_metadata option" where
  "function_autocorrelate R now dmo =
     (case dmo of
        None \<Rightarrow> Inr None
      | Some dm \<Rightarrow>
          (case data_shape dm of
             None \<Rightarrow> Inl TypeError
           | Some s \<Rightarrow>
               (case autocorrelate_calculate_data R dm of
                  Inl e \<Rightarrow> Inl e
                | Inr r \<Rightarrow>
                    Inr (Some (new_data_and_metadata r uncalibrated
                          (Some (map (\<lambda>_. uncalibrated) s)) [] now)))))"

definition crosscorrelate_calculate_data ::
  "routines \<Rightarrow> data_and_metadata \<Rightarrow> data_and_metadata \<Rightarrow> error + ndarray option" where
  "crosscorrelate_calculate_data R dm1 dm2 =
     (case (data dm1, data dm2) of
        (Some data1, Some data2) \<Rightarrow>
          if is_data_2d data1 \<and> is_data_2d data2 then
            (case r_crosscorrelate R data1 data2 of
               Inl e \<Rightarrow> Inl e
             | Inr a \<Rightarrow> Inr (Some a))
          else Inr None
      | _ \<Rightarrow> Inr None)"

text \<open>
  With two arguments, reading \<^verbatim>\<open>.data\<close> happens only inside \<^verbatim>\<open>calculate_data\<close>, which
  is called after the test for \<^verbatim>\<open>None\<close> arguments.
\<close>

definition function_crosscorrelate ::
  "routines \<Rightarrow> nat \<Rightarrow> data_and_metadata option list \<Rightarrow> error + data_and_metadata option" where
  "function_crosscorrelate R now args =
     (case args of
        [Some dm1, Some dm2] \<Rightarrow>
          (case data_shape dm1 of
             None \<Rightarrow> Inl TypeError
           | Some s \<Rightarrow>
               (case crosscorrelate_calculate_data R dm1 dm2 of
                  Inl e \<Rightarrow> Inl e
                | Inr r \<Rightarrow>
                    Inr (Some (new_data_and_metadata r uncalibrated
                          (Some (map (\<lambda>_. uncalibrated) s)) [] now))))
      | _ \<Rightarrow> Inr None)"

definition fourier_mask_calculate_data ::
  "routines \<Rightarrow> data_and_metadata \<Rightarrow> data_and_metadata \<Rightarrow> error + ndarray option" where
  "fourier_mask_calculate_data R dm mask_dm =
     (case (data dm, data mask_dm) of
        (Some d, Some mask_data) \<Rightarrow>
          if is_data_2d d \<and> is_data_2d mask_data then
            (case r_fourier_mask R d mask_data of
               Inl e \<Rightarrow> Inl e
             | Inr a \<Rightarrow> Inr (Some a))
          else Inr None
      | _ \<Rightarrow> Inr None)"

definition function_fourier_mask ::
  "routines \<Rightarrow> nat \<Rightarrow> data_and_metadata \<Rightarrow> data_and_metadata \<Rightarrow> error + data_and_metadata" where
  "function_fourier_mask R now dm mask_dm =
     pass_through now dm (fourier_mask_calculate_data R dm mask_dm)"

subsection \<open>Transpose, flip, invert\<close>

text \<open>
  \<^verbatim>\<open>numpy.transpose(data, [1, 0])\<close> and \<^verbatim>\<open>numpy.transpose(data, [1, 0, 2])\<close>: the first two
  axes change places, what lies below them moves as a block.
\<close>

definition transpose01 :: "ndarray \<Rightarrow> ndarray" where
  "transpose01 a =
     (case shape a of
        h # w # rest \<Rightarrow>
          \<lparr>shape = w # h # rest, dtype = dtype a,
           elems = concat (concat (transpose (chunks w (chunks (prod_list rest) (elems a)))))\<rparr>
      | _ \<Rightarrow> a)"

text \<open>\<^verbatim>\<open>numpy.fliplr\<close> and \<^verbatim>\<open>numpy.flipud\<close> on an array of two axes.\<close>

definition fliplr :: "ndarray \<Rightarrow> ndarray" where
  "fliplr a = a\<lparr>elems := concat (map rev (chunks (shape a ! 1) (elems a)))\<rparr>"

definition flipud :: "ndarray \<Rightarrow> ndarray" where
  "flipud a = a\<lparr>elems := concat (rev (chunks (shape a ! 1) (elems a)))\<rparr>"

definition transpose_flip_calculate_data ::
  "data_and_metadata \<Rightarrow> bool \<Rightarrow> bool \<Rightarrow> bool \<Rightarrow> error + ndarray option" where
  "transpose_flip_calculate_data dm transpose_p flip_v flip_h =
     (case data dm of
        None \<Rightarrow> Inr None
      | Some d \<Rightarrow>
          if \<not> is_data_valid (Some d) then Inr None
          else
            (let d1 = (if transpose_p then
                         (if is_shape_and_dtype_rgb_type (shape d) (dtype d) then transpose01 d
                          else if length (shape d) = 2 then transpose01 d
                          else d)
                       else d);
                 d2 = (if flip_h \<and> length (shape d) = 2 then fliplr d1 else d1);
                 d3 = (if flip_v \<and> length (shape d) = 2 then flipud d2 else d2)
             in Inr (Some d3)))"

definition function_transpose_flip ::
  "nat \<Rightarrow> data_and_metadata \<Rightarrow> bool \<Rightarrow> bool \<Rightarrow> bool \<Rightarrow> error + data_and_metadata option" where
  "function_transpose_flip now dm transpose_p flip_v flip_h =
     (if \<not> is_shape_and_dtype_valid (data_shape dm) (data_dtype dm) then Inr None
      else
        (case (if transpose_p
               then (case dimensional_calibrations dm of
                       None \<Rightarrow> Inl TypeError
                     | Some cals \<Rightarrow> Inr (Some (rev cals)))
               else Inr (dimensional_calibrations dm)) of
           Inl e \<Rightarrow> Inl e
         | Inr cals \<Rightarrow>
             (case transpose_flip_calculate_data dm transpose_p flip_v flip_h of
                Inl e \<Rightarrow> Inl e
              | Inr r \<Rightarrow>
                  Inr (Some (new_data_and_metadata r (intensity_calibration dm) cals
                        (metadata dm) now)))))"

definition invert_calculate_data :: "routines \<Rightarrow> data_and_metadata \<Rightarrow> error + ndarray option" where
  "invert_calculate_data R dm =
     (case data dm of
        None \<Rightarrow> Inr None
      | Some d \<Rightarrow>
          if \<not> is_data_valid (Some d) then Inr None
          else if is_shape_and_dtype_rgb_type (shape d) (dtype d) then
            (if is_shape_and_dtype_rgba (shape d) (dtype d)
             then Inr (Some (d\<lparr>elems := concat (map (\<lambda>px. map (\<lambda>z. 255 - z) (take 3 px) @ drop 3 px)
                                                     (chunks 4 (elems d)))\<rparr>))
             else Inr (Some (d\<lparr>elems := map (\<lambda>z. 255 - z) (elems d)\<rparr>)))
          else Inr (Some (r_negative R d)))"

definition function_invert ::
  "routines \<Rightarrow> nat \<Rightarrow> data_and_metadata \<Rightarrow> error + data_and_metadata option" where
  "function_invert R now dm =
     (if \<not> is_shape_and_dtype_valid (data_shape dm) (data_dtype dm) then Inr None
      else
        (case invert_calculate_data R dm of
           Inl e \<Rightarrow> Inl e
         | Inr r \<Rightarrow>
             Inr (Some (new_data_and_metadata r (intensity_calibration dm)
                   (dimensional_calibrations dm) (metadata dm) now))))"

subsection \<open>Slice sum, sum\<close>

definition slice_sum_calculate_data ::
  "routines \<Rightarrow> data_and_metadata \<Rightarrow> int \<Rightarrow> int \<Rightarrow> error + ndarray option" where
  "slice_sum_calculate_data R dm slice_center slice_width =
     (case data dm of
        None \<Rightarrow> Inr None
      | Some d \<Rightarrow>
          if \<not> is_data_valid (Some d) then Inr None
          else
            (let slice_start = py_int (real_of_int slice_center - real_of_int slice_width * 0.5
                                       + 0.5);
                 slice_start = max slice_start 0;
                 slice_end = slice_start + slice_width;
                 slice_end = min (int (shape d ! 0)) slice_end
             in if length (shape d) < 2 then Inl IndexError
                else
                  (case slice_axis0 d slice_start slice_end of
                     Inl e \<Rightarrow> Inl e
                   | Inr part \<Rightarrow>
                       (case r_sum R part (SingleAxis 0) of
                          Inl e \<Rightarrow> Inl e
                        | Inr a \<Rightarrow> Inr (Some a)))))"

definition function_slice_sum ::
  "routines \<Rightarrow> nat \<Rightarrow> data_and_metadata \<Rightarrow> int \<Rightarrow> int \<Rightarrow> error + data_and_metadata option" where
  "function_slice_sum R now dm slice_center slice_width =
     (case dimensional_calibrations dm of
        Some cals \<Rightarrow>
          if \<not> is_shape_and_dtype_valid (data_shape dm) (data_dtype dm) then Inr None
          else
            (case slice_sum_calculate_data R dm slice_center slice_width of
               Inl e \<Rightarrow> Inl e
             | Inr r \<Rightarrow>
                 Inr (Some (new_data_and_metadata r (intensity_calibration dm)
                       (Some (drop 1 cals)) (metadata dm) now)))
      | None \<Rightarrow> Inr None)"

text \<open>
  The colour branch of \<^verbatim>\<open>function_sum\<close>: \<^verbatim>\<open>numpy.empty(data.shape[1:], numpy.uint8)\<close> and
  one assignment \<^verbatim>\<open>out[:, c] = numpy.average(data[..., c], 0)\<close> per channel, the alpha
  channel of an RGBA image included.
\<close>

definition sum_calculate_data ::
  "routines \<Rightarrow> data_and_metadata \<Rightarrow> axis_arg \<Rightarrow> error + ndarray option" where
  "sum_calculate_data R dm axis =
     (case data dm of
        None \<Rightarrow> Inr None
      | Some d \<Rightarrow>
          if \<not> is_data_valid (Some d) then Inr None
          else if is_shape_and_dtype_rgb_type (shape d) (dtype d) then
            (case stack_channels (butlast (tl (shape d)))
                    (map (\<lambda>c. r_average0 R (channel d c))
                       (if is_shape_and_dtype_rgb (shape d) (dtype d) then [0, 1, 2]
                        else [0, 1, 2, 3])) of
               Inl e \<Rightarrow> Inl e
             | Inr a \<Rightarrow> Inr (Some a))
          else
            (case r_sum R d axis of
               Inl e \<Rightarrow> Inl e
             | Inr a \<Rightarrow> Inr (Some a)))"

definition sum_calibrations :: "axis_arg \<Rightarrow> calibration list \<Rightarrow> calibration list" where
  "sum_calibrations axis cals =
     (case axis of
        SingleAxis i \<Rightarrow> map snd (filter (\<lambda>(index, c). int index \<noteq> i) (enumerate 0 cals))
      | ManyAxes axes \<Rightarrow>
          map snd (filter (\<lambda>(index, c). int index \<notin> set axes) (enumerate 0 cals))
      | NoAxis \<Rightarrow> [])"

definition function_sum ::
  "routines \<Rightarrow> nat \<Rightarrow> data_and_metadata \<Rightarrow> axis_arg \<Rightarrow> error + data_and_metadata option" where
  "function_sum R now dm axis =
     (case dimensional_calibrations dm of
        Some cals \<Rightarrow>
          if \<not> is_shape_and_dtype_valid (data_shape dm) (data_dtype dm) then Inr None
          else
            (case sum_calculate_data R dm axis of
               Inl e \<Rightarrow> Inl e
             | Inr r \<Rightarrow>
                 Inr (Some (new_data_and_metadata r (intensity_calibration dm)
                       (Some (sum_calibrations axis cals)) (metadata dm) now)))
      | None \<Rightarrow> Inr None)"

subsection \<open>Rescale, resample, histogram\<close>

definition rescale_calculate_data ::
  "routines \<Rightarrow> data_and_metadata \<Rightarrow> real \<times> real \<Rightarrow> error + ndarray option" where
  "rescale_calculate_data R dm data_range =
     (case data dm of
        None \<Rightarrow> Inr None
      | Some d \<Rightarrow>
          if \<not> is_data_valid (Some d) then Inr None
          else Inr (Some (r_rescale R d data_range)))"

definition function_rescale ::
  "routines \<Rightarrow> nat \<Rightarrow> data_and_metadata \<Rightarrow> (real \<times> real) option
     \<Rightarrow> error + data_and_metadata option" where
  "function_rescale R now dm data_range =
     (let data_range = (case data_range of Some p \<Rightarrow> p | None \<Rightarrow> (0, 1))
      in if \<not> is_shape_and_dtype_valid (data_shape dm) (data_dtype dm) then Inr None
         else
           (case rescale_calculate_data R dm data_range of
              Inl e \<Rightarrow> Inl e
            | Inr r \<Rightarrow>
                Inr (Some (new_data_and_metadata r uncalibrated (dimensional_calibrations dm)
                      (metadata dm) now))))"

definition resample_2d_calculate_data ::
  "routines \<Rightarrow> data_and_metadata \<Rightarrow> int \<Rightarrow> int \<Rightarrow> error + ndarray option" where
  "resample_2d_calculate_data R dm height width =
     (case data dm of
        None \<Rightarrow> Inr None
      | Some d \<Rightarrow>
          if \<not> is_data_valid (Some d) then Inr None
          else if \<not> is_data_2d d then Inr None
          else if int (shape d ! 0) = height \<and> int (shape d ! 1) = width then Inr (Some d)
          else (case r_scaled R d (height, width) of
                  Inl e \<Rightarrow> Inl e
                | Inr a \<Rightarrow> Inr (Some a)))"

text \<open>
  One element of the list comprehension of \<^verbatim>\<open>function_resample_2d\<close>:
  \<^verbatim>\<open>dimensions\<close> is the pair \<open>(height, width)\<close>, and the division is a Python division.
\<close>

definition resample_calibration ::
  "nat list \<Rightarrow> int \<Rightarrow> int \<Rightarrow> nat \<times> calibration \<Rightarrow> error + calibration" where
  "resample_calibration s height width ic =
     (case ic of (i, c) \<Rightarrow>
        if length s \<le> i \<or> 2 \<le> i then Inl IndexError
        else
          (case py_div (scale c * real (s ! i))
                  (real_of_int (if i = 0 then height else width)) of
             Inl e \<Rightarrow> Inl e
           | Inr sc \<Rightarrow> Inr \<lparr>offset = offset c, scale = sc, units = units c\<rparr>))"

definition function_resample_2d ::
  "routines \<Rightarrow> nat \<Rightarrow> data_and_metadata \<Rightarrow> int \<times> int \<Rightarrow> error + data_and_metadata option" where
  "function_resample_2d R now dm new_shape =
     (let height = fst new_shape; width = snd new_shape
      in (case (data dm, dimensional_calibrations dm) of
            (Some d, Some cals) \<Rightarrow>
              if \<not> is_shape_and_dtype_valid (data_shape dm) (data_dtype dm) then Inr None
              else if \<not> is_shape_and_dtype_2d (shape d) (dtype d) then Inr None
              else
                (case map_result (resample_calibration (shape d) height width)
                        (enumerate 0 cals) of
                   Inl e \<Rightarrow> Inl e
                 | Inr new_cals \<Rightarrow>
                     (case resample_2d_calculate_data R dm height width of
                        Inl e \<Rightarrow> Inl e
                      | Inr r \<Rightarrow>
                          Inr (Some (new_data_and_metadata r (intensity_calibration dm)
                                (Some new_cals) (metadata dm) now))))
          | _ \<Rightarrow> Inr None))"

definition histogram_calculate_data ::
  "routines \<Rightarrow> data_and_metadata \<Rightarrow> int \<Rightarrow> error + ndarray option" where
  "histogram_calculate_data R dm bins =
     (case data dm of
        None \<Rightarrow> Inr None
      | Some d \<Rightarrow>
          if \<not> is_data_valid (Some d) then Inr None
          else (case r_histogram R d bins of
                  Inl e \<Rightarrow> Inl e
                | Inr a \<Rightarrow> Inr (Some a)))"

definition function_histogram ::
  "routines \<Rightarrow> nat \<Rightarrow> data_and_metadata \<Rightarrow> real \<Rightarrow> error + data_and_metadata option" where
  "function_histogram R now dm bins =
     (let bins = py_int bins
      in (case dimensional_calibrations dm of
            Some cals \<Rightarrow>
              if \<not> is_shape_and_dtype_valid (data_shape dm) (data_dtype dm) then Inr None
              else
                (case histogram_calculate_data R dm bins of
                   Inl e \<Rightarrow> Inl e
                 | Inr r \<Rightarrow>
                     Inr (Some (new_data_and_metadata r (intensity_calibration dm)
                           (Some [uncalibrated]) (metadata dm) now)))
          | None \<Rightarrow> Inr None))"

subsection \<open>The array adapter\<close>

text \<open>
  \<^verbatim>\<open>function_array\<close>: \<open>array_fn\<close> stands for the function given, with its further
  arguments, called on the payload.
\<close>

definition function_array ::
  "(ndarray option \<Rightarrow> error + ndarray option) \<Rightarrow> nat \<Rightarrow> data_and_metadata
     \<Rightarrow> error + data_and_metadata" where
  "function_array array_fn now dm = pass_through now dm (array_fn (data dm))"

subsection \<open>Payload and result\<close>

text \<open>An entry that always returns a value, read as one that may return \<^verbatim>\<open>None\<close>.\<close>

definition always :: "error + 'a \<Rightarrow> error + 'a option" where
  "always x = (case x of Inl e \<Rightarrow> Inl e | Inr v \<Rightarrow> Inr (Some v))"

text \<open>
  \<open>holds_payload payload outcome\<close>: when the outcome of an entry is a result, the payload
  computation has returned, and the result holds the value it returned.
\<close>

definition holds_payload ::
  "error + ndarray option \<Rightarrow> error + data_and_metadata option \<Rightarrow> bool" where
  "holds_payload payload outcome =
     (case outcome of
        Inr (Some r) \<Rightarrow> payload = Inr (data r)
      | _ \<Rightarrow> True)"

text \<open>Routines that return the array they are given; a sum leaves out its axes.\<close>

definition plain_routines :: routines where
  "plain_routines =
     \<lparr>r_power = (\<lambda>b y. 0), r_autocorrelate = (\<lambda>a. a),
      r_crosscorrelate = (\<lambda>a b. Inr a), r_fourier_mask = (\<lambda>a b. Inr a),
      r_negative = (\<lambda>a. a), r_sum = (\<lambda>a axis. Inr a), r_average0 = (\<lambda>a. a),
      r_rescale = (\<lambda>a p. a), r_scaled = (\<lambda>a p. Inr a), r_histogram = (\<lambda>a bins. Inr a)\<rparr>"

section \<open>Properties\<close>

subsection \<open>Helper facts\<close>

lemma map_result_Inr:
  "(\<And>x. x \<in> set xs \<Longrightarrow> f x = Inr (g x)) \<Longrightarrow> map_result f xs = Inr (map g xs)"
  by (induction xs) auto

lemma valid_shape_positive:
  "is_data_valid (Some d) \<Longrightarrow> n \<in> set (shape d) \<Longrightarrow> 0 < n"
  by (simp add: is_data_valid_def is_shape_and_dtype_valid_def)

lemma valid_data_and_metadata:
  "data dm = Some d \<Longrightarrow> is_data_valid (Some d)
     \<Longrightarrow> is_shape_and_dtype_valid (data_shape dm) (data_dtype dm)"
  by (simp add: is_data_valid_def data_shape_def data_dtype_def)

lemma fft_calibration_Inr:
  "scale c \<noteq> 0 \<Longrightarrow> 0 < n \<Longrightarrow>
     fft_calibration (c, n) =
       Inr \<lparr>offset = - 0.5 / scale c, scale = 1 / (scale c * real n),
            units = ''1/'' @ units c\<rparr>"
  by (simp add: fft_calibration_def py_div_def)

lemma fft_calibrations_Inr:
  assumes "is_data_valid (Some d)" and "\<forall>c \<in> set cs. scale c \<noteq> 0"
  shows "map_result fft_calibration (zip cs (shape d)) =
           Inr (map (\<lambda>(c, n). \<lparr>offset = - 0.5 / scale c, scale = 1 / (scale c * real n),
                                units = ''1/'' @ units c\<rparr>) (zip cs (shape d)))"
proof (rule map_result_Inr)
  fix x assume mem: "x \<in> set (zip cs (shape d))"
  obtain c n where x: "x = (c, n)" by (cases x)
  have "c \<in> set cs" and "n \<in> set (shape d)"
    using mem x by (auto dest: set_zip_leftD set_zip_rightD)
  then have "scale c \<noteq> 0" and "0 < n"
    using assms valid_shape_positive by auto
  then show "fft_calibration x =
      Inr ((\<lambda>(c, n). \<lparr>offset = - 0.5 / scale c, scale = 1 / (scale c * real n),
                       units = ''1/'' @ units c\<rparr>) x)"
    using x by (simp add: fft_calibration_Inr)
qed

lemma fft_calculate_data_Inr:
  "data dm = Some d \<Longrightarrow> is_data_1d d \<or> is_data_2d d \<Longrightarrow> \<exists>r. fft_calculate_data K dm = Inr r"
  by (auto simp: fft_calculate_data_def Let_def)

lemmas image_predicates =
  is_data_valid_def is_shape_and_dtype_valid_def dimensional_shape_from_shape_and_dtype_def
  is_shape_and_dtype_rgb_type_def is_shape_and_dtype_rgb_def is_shape_and_dtype_rgba_def
  is_data_1d_def is_data_2d_def is_shape_and_dtype_1d_def is_shape_and_dtype_2d_def
  data_shape_def data_dtype_def

subsection \<open>Forward Fourier transform\<close>

text \<open>
  Claim C1. For a valid input of rank 1 or 2 whose dimensional calibrations are present,
  one per data axis, and whose scales are not zero (a zero scale makes the two
  divisions raise), \<open>function_fft\<close> returns a result; the calibration of each axis of
  length \<open>n\<close> with source calibration \<open>c\<close> is
  \<open>(-0.5 / scale c, 1 / (scale c * n), "1/" + units c)\<close>, and the intensity
  calibration is the uncalibrated one.
\<close>

theorem function_fft_calibrations:
  assumes "data dm = Some d" and "is_data_valid (Some d)"
    and "dimensional_calibrations dm = Some cs"
    and "length cs = length (dimensional_shape_from_shape_and_dtype (shape d) (dtype d))"
    and "is_data_1d d \<or> is_data_2d d"
    and "\<forall>c \<in> set cs. scale c \<noteq> 0"
  shows "\<exists>r. function_fft K now dm = Inr (Some r)
           \<and> dimensional_calibrations r =
               Some (map (\<lambda>(c, n). \<lparr>offset = - 0.5 / scale c,
                                    scale = 1 / (scale c * real n),
                                    units = ''1/'' @ units c\<rparr>) (zip cs (shape d)))
           \<and> intensity_calibration r = \<lparr>offset = 0, scale = 1, units = ''''\<rparr>"
proof -
  obtain r where r: "fft_calculate_data K dm = Inr r"
    using fft_calculate_data_Inr [OF assms(1) assms(5)] by blast
  have "function_fft K now dm =
      Inr (Some (new_data_and_metadata r uncalibrated
        (Some (map (\<lambda>(c, n). \<lparr>offset = - 0.5 / scale c, scale = 1 / (scale c * real n),
                              units = ''1/'' @ units c\<rparr>) (zip cs (shape d)))) [] now))"
    using assms(1,3,4) valid_data_and_metadata [OF assms(1,2)]
      fft_calibrations_Inr [OF assms(2) assms(6)] r
    by (simp add: function_fft_def)
  then show ?thesis
    by (simp add: new_data_and_metadata_def uncalibrated_def)
qed

text \<open>
  The scenario of the spec: a 4 by 4 float array with calibrations \<open>(0, 1, "nm")\<close> on
  both axes.
\<close>

theorem function_fft_calibrations_witness:
  "\<exists>r. function_fft plain_kernel 0 (float_image [4, 4] [nm, nm]) = Inr (Some r)
     \<and> dimensional_calibrations r =
         Some [\<lparr>offset = - 0.5, scale = 0.25, units = ''1/nm''\<rparr>,
               \<lparr>offset = - 0.5, scale = 0.25, units = ''1/nm''\<rparr>]
     \<and> intensity_calibration r = \<lparr>offset = 0, scale = 1, units = ''''\<rparr>"
  using function_fft_calibrations [of "float_image [4, 4] [nm, nm]" "zeros [4, 4] Float64"
      "[nm, nm]" plain_kernel 0]
  by (simp add: float_image_def zeros_def nm_def image_predicates)

subsection \<open>Forward and inverse Fourier transform\<close>

lemma remove_one_slash_prefixed: "remove_one_slash (''1/'' @ u) = u"
  by (simp add: remove_one_slash_def)

lemma remove_one_slash_else:
  "take 2 u \<noteq> ''1/'' \<Longrightarrow> remove_one_slash u = ''1/'' @ u"
  by (simp add: remove_one_slash_def)












subsection \<open>When the payload is computed\<close>

lemma holds_payload_through:
  "holds_payload payload (always (pass_through now dm payload))"
  by (auto simp: holds_payload_def always_def pass_through_def new_data_and_metadata_def
      split: sum.splits)

lemma holds_payload_generated:
  "holds_payload (always payload) (always (generated now payload))"
  by (auto simp: holds_payload_def always_def generated_def new_data_and_metadata_default_def
      new_data_and_metadata_def split: sum.splits)

lemma holds_payload_fft:
  "holds_payload (fft_calculate_data K dm) (function_fft K now dm)"
  by (auto simp: holds_payload_def function_fft_def new_data_and_metadata_def
      split: sum.splits option.splits if_splits)

lemma holds_payload_ifft:
  "holds_payload (ifft_calculate_data K dm) (function_ifft K now dm)"
  by (auto simp: holds_payload_def function_ifft_def new_data_and_metadata_def
      split: sum.splits option.splits if_splits)

lemma holds_payload_autocorrelate:
  "holds_payload (case dmo of Some dm \<Rightarrow> autocorrelate_calculate_data R dm | None \<Rightarrow> Inr None)
     (function_autocorrelate R now dmo)"
  by (auto simp: holds_payload_def function_autocorrelate_def new_data_and_metadata_def
      split: sum.splits option.splits)

lemma holds_payload_crosscorrelate:
  "holds_payload (case args of [Some dm1, Some dm2] \<Rightarrow> crosscorrelate_calculate_data R dm1 dm2
                  | _ \<Rightarrow> Inr None)
     (function_crosscorrelate R now args)"
  by (auto simp: holds_payload_def function_crosscorrelate_def new_data_and_metadata_def
      split: sum.splits option.splits list.splits)

lemma holds_payload_transpose_flip:
  "holds_payload (transpose_flip_calculate_data dm transpose_p flip_v flip_h)
     (function_transpose_flip now dm transpose_p flip_v flip_h)"
  by (auto simp: holds_payload_def function_transpose_flip_def new_data_and_metadata_def
      split: sum.splits option.splits if_splits)

lemma holds_payload_invert:
  "holds_payload (invert_calculate_data R dm) (function_invert R now dm)"
  by (auto simp: holds_payload_def function_invert_def new_data_and_metadata_def
      split: sum.splits option.splits if_splits)

lemma holds_payload_crop:
  "holds_payload (crop_calculate_data dm bounds) (function_crop now dm bounds)"
  by (auto simp: holds_payload_def function_crop_def new_data_and_metadata_def
      split: sum.splits option.splits if_splits)

lemma holds_payload_crop_interval:
  "holds_payload (crop_interval_calculate_data dm interval)
     (function_crop_interval now dm interval)"
  by (auto simp: holds_payload_def function_crop_interval_def new_data_and_metadata_def Let_def
      split: sum.splits option.splits if_splits list.splits)

lemma holds_payload_slice_sum:
  "holds_payload (slice_sum_calculate_data R dm slice_center slice_width)
     (function_slice_sum R now dm slice_center slice_width)"
  by (auto simp: holds_payload_def function_slice_sum_def new_data_and_metadata_def
      split: sum.splits option.splits if_splits)

lemma holds_payload_pick:
  "holds_payload (pick_calculate_data dm position) (function_pick now dm position)"
  by (auto simp: holds_payload_def function_pick_def new_data_and_metadata_def
      split: sum.splits option.splits if_splits)

lemma holds_payload_concatenate:
  "holds_payload (case data_and_metadata_list of
                    [] \<Rightarrow> Inr None
                  | first # _ \<Rightarrow> concatenate_calculate_data K data_and_metadata_list axis
                                   (data_shape first))
     (function_concatenate K now data_and_metadata_list axis)"
  by (auto simp: holds_payload_def function_concatenate_def new_data_and_metadata_def
      split: sum.splits option.splits if_splits list.splits)

lemma holds_payload_hstack:
  "holds_payload (case data_and_metadata_list of
                    [] \<Rightarrow> Inr None
                  | first # _ \<Rightarrow>
                      concatenate_calculate_data K data_and_metadata_list
                        (if 2 \<le> length (case data_shape first of Some s \<Rightarrow> s | None \<Rightarrow> [])
                         then 1 else 0)
                        (data_shape first))
     (function_hstack K now data_and_metadata_list)"
  using holds_payload_concatenate [where K = K and now = now and axis = 1
      and data_and_metadata_list = data_and_metadata_list]
    holds_payload_concatenate [where K = K and now = now and axis = 0
      and data_and_metadata_list = data_and_metadata_list]
  by (auto simp: function_hstack_def holds_payload_def split: list.splits option.splits)

lemma holds_payload_vstack:
  "holds_payload (case data_and_metadata_list of
                    [] \<Rightarrow> Inr None
                  | first # _ \<Rightarrow>
                      (case data_shape first of
                         None \<Rightarrow> Inr None
                       | Some partial_shape \<Rightarrow>
                           if 2 \<le> length partial_shape
                           then concatenate_calculate_data K data_and_metadata_list 0
                                  (data_shape first)
                           else vstack_calculate_data K data_and_metadata_list partial_shape))
     (function_vstack K now data_and_metadata_list)"
proof (cases data_and_metadata_list)
  case Nil
  then show ?thesis by (simp add: holds_payload_def function_vstack_def)
next
  case (Cons first rest)
  show ?thesis
  proof (cases "data_shape first")
    case None
    then show ?thesis using Cons by (simp add: holds_payload_def function_vstack_def)
  next
    case (Some partial_shape)
    show ?thesis
    proof (cases "2 \<le> length partial_shape")
      case True
      then show ?thesis
        using Cons Some holds_payload_concatenate [where K = K and now = now and axis = 0
            and data_and_metadata_list = data_and_metadata_list]
        by (simp add: function_vstack_def)
    next
      case False
      then show ?thesis
        using Cons Some
        by (auto simp: holds_payload_def function_vstack_def new_data_and_metadata_def
            split: sum.splits option.splits if_splits list.splits)
    qed
  qed
qed

lemma holds_payload_sum:
  "holds_payload (sum_calculate_data R dm axis) (function_sum R now dm axis)"
  by (auto simp: holds_payload_def function_sum_def new_data_and_metadata_def
      split: sum.splits option.splits if_splits)

lemma holds_payload_reshape:
  "holds_payload (reshape_calculate_data dm new_shape) (function_reshape now dm new_shape)"
  by (auto simp: holds_payload_def function_reshape_def new_data_and_metadata_def
      split: sum.splits option.splits if_splits)

lemma holds_payload_rescale:
  "holds_payload (rescale_calculate_data R dm (case data_range of Some p \<Rightarrow> p | None \<Rightarrow> (0, 1)))
     (function_rescale R now dm data_range)"
  by (auto simp: holds_payload_def function_rescale_def new_data_and_metadata_def Let_def
      split: sum.splits option.splits if_splits)

lemma holds_payload_resample_2d:
  "holds_payload (resample_2d_calculate_data R dm (fst new_shape) (snd new_shape))
     (function_resample_2d R now dm new_shape)"
  by (auto simp: holds_payload_def function_resample_2d_def new_data_and_metadata_def Let_def
      split: sum.splits option.splits if_splits)

lemma holds_payload_histogram:
  "holds_payload (histogram_calculate_data R dm (py_int bins)) (function_histogram R now dm bins)"
  by (auto simp: holds_payload_def function_histogram_def new_data_and_metadata_def Let_def
      split: sum.splits option.splits if_splits)

lemma holds_payload_line_profile:
  "holds_payload (line_profile_calculate_data K dm vector (py_int integration_width))
     (function_line_profile K now dm vector integration_width)"
  by (auto simp: holds_payload_def function_line_profile_def new_data_and_metadata_def Let_def
      split: sum.splits option.splits if_splits)

lemma function_fft_raises:
  assumes "data dm = Some d" and "is_data_valid (Some d)"
    and "dimensional_calibrations dm = Some cs" and "length cs = rank d"
    and "\<forall>c \<in> set cs. scale c \<noteq> 0"
    and "fft_calculate_data K dm = Inl e"
  shows "function_fft K now dm = Inl e"
  using assms(1,3,4,6) valid_data_and_metadata [OF assms(1,2)]
    fft_calibrations_Inr [OF assms(2) assms(5)]
  by (simp add: function_fft_def rank_def)

text \<open>
  Claim C3, the counterexample: on a valid array of three axes with its three
  calibrations the payload computation of \<open>function_fft\<close> raises, and the raise is the
  outcome of the call: no result comes back whose shape or calibrations could be
  inspected.
\<close>

theorem function_fft_rank3_raises:
  "fft_calculate_data plain_kernel (float_image [2, 2, 2] [nm, nm, nm]) = Inl NotImplementedError
   \<and> function_fft plain_kernel 0 (float_image [2, 2, 2] [nm, nm, nm]) = Inl NotImplementedError"
  by (simp add: function_fft_def fft_calculate_data_def fft_calibration_def py_div_def
      float_image_def zeros_def nm_def image_predicates)

text \<open>
  Claim C3, as amended. Every catalog entry that returns a calibrated array runs its
  payload computation when it is called and hands the computed payload to the
  constructor: whenever the entry returns a result, the payload computation has
  returned and the result holds its value, so a payload computation that raises
  leaves no result to inspect. For \<open>function_fft\<close> on a valid input with one calibration
  of non-zero scale per data axis, what \<open>calculate_data\<close> raises is what the call
  raises. The scalar adapter alone defers: \<open>function_scalar\<close> returns its value
  whatever \<open>op\<close> does, and reading the value runs \<open>op\<close> on the payload.
\<close>

theorem payload_computed_when_called:
  "holds_payload (column_calculate_data dm start stop) (always (column now dm start stop))
   \<and> holds_payload (row_calculate_data dm start stop) (always (row now dm start stop))
   \<and> holds_payload (radius_calculate_data dm normalise) (always (radius now dm normalise))
   \<and> holds_payload (always (numpy_full s fill_value (case t of Some t' \<Rightarrow> t' | None \<Rightarrow> Float64)))
        (always (full now s fill_value t))
   \<and> holds_payload (always (arange_data first_value last_value step))
        (always (arange now first_value last_value step))
   \<and> holds_payload (always (numpy_linspace x0 x1 num endpoint))
        (always (linspace now x0 x1 num endpoint))
   \<and> holds_payload (always (numpy_logspace R x0 x1 num endpoint base))
        (always (logspace R now x0 x1 num endpoint base))
   \<and> holds_payload (always (dist_fn mean stddev (data dm)))
        (always (apply_dist dist_fn now dm mean stddev))
   \<and> holds_payload (fft_calculate_data K dm) (function_fft K now dm)
   \<and> holds_payload (ifft_calculate_data K dm) (function_ifft K now dm)
   \<and> holds_payload (case dmo of Some dm \<Rightarrow> autocorrelate_calculate_data R dm | None \<Rightarrow> Inr None)
        (function_autocorrelate R now dmo)
   \<and> holds_payload (case args of [Some dm1, Some dm2] \<Rightarrow> crosscorrelate_calculate_data R dm1 dm2
                     | _ \<Rightarrow> Inr None)
        (function_crosscorrelate R now args)
   \<and> holds_payload (fourier_mask_calculate_data R dm mask_dm)
        (always (function_fourier_mask R now dm mask_dm))
   \<and> holds_payload (calculate_filtered (k_sobel K) (data dm)) (always (function_sobel K now dm))
   \<and> holds_payload (calculate_filtered (k_laplace K) (data dm))
        (always (function_laplace K now dm))
   \<and> holds_payload (gaussian_blur_calculate_data K sigma (data dm))
        (always (function_gaussian_blur K now dm sigma))
   \<and> holds_payload (calculate_filtered (\<lambda>a. k_median_filter K a (filter_size sz)) (data dm))
        (always (function_median_filter K now dm sz))
   \<and> holds_payload (calculate_filtered (\<lambda>a. k_uniform_filter K a (filter_size sz)) (data dm))
        (always (function_uniform_filter K now dm sz))
   \<and> holds_payload (transpose_flip_calculate_data dm transpose_p flip_v flip_h)
        (function_transpose_flip now dm transpose_p flip_v flip_h)
   \<and> holds_payload (invert_calculate_data R dm) (function_invert R now dm)
   \<and> holds_payload (crop_calculate_data dm bounds) (function_crop now dm bounds)
   \<and> holds_payload (crop_interval_calculate_data dm interval)
        (function_crop_interval now dm interval)
   \<and> holds_payload (slice_sum_calculate_data R dm slice_center slice_width)
        (function_slice_sum R now dm slice_center slice_width)
   \<and> holds_payload (pick_calculate_data dm position) (function_pick now dm position)
   \<and> holds_payload (case data_and_metadata_list of
                       [] \<Rightarrow> Inr None
                     | first # _ \<Rightarrow> concatenate_calculate_data K data_and_metadata_list axis
                                      (data_shape first))
        (function_concatenate K now data_and_metadata_list axis)
   \<and> holds_payload (case data_and_metadata_list of
                       [] \<Rightarrow> Inr None
                     | first # _ \<Rightarrow>
                         concatenate_calculate_data K data_and_metadata_list
                           (if 2 \<le> length (case data_shape first of Some s \<Rightarrow> s | None \<Rightarrow> [])
                            then 1 else 0)
                           (data_shape first))
        (function_hstack K now data_and_metadata_list)
   \<and> holds_payload (case data_and_metadata_list of
                       [] \<Rightarrow> Inr None
                     | first # _ \<Rightarrow>
                         (case data_shape first of
                            None \<Rightarrow> Inr None
                          | Some partial_shape \<Rightarrow>
                              if 2 \<le> length partial_shape
                              then concatenate_calculate_data K data_and_metadata_list 0
                                     (data_shape first)
                              else vstack_calculate_data K data_and_metadata_list partial_shape))
        (function_vstack K now data_and_metadata_list)
   \<and> holds_payload (sum_calculate_data R dm sum_axis) (function_sum R now dm sum_axis)
   \<and> holds_payload (reshape_calculate_data dm new_shape) (function_reshape now dm new_shape)
   \<and> holds_payload (rescale_calculate_data R dm
                       (case data_range of Some p \<Rightarrow> p | None \<Rightarrow> (0, 1)))
        (function_rescale R now dm data_range)
   \<and> holds_payload (resample_2d_calculate_data R dm (fst size_2d) (snd size_2d))
        (function_resample_2d R now dm size_2d)
   \<and> holds_payload (histogram_calculate_data R dm (py_int bins))
        (function_histogram R now dm bins)
   \<and> holds_payload (line_profile_calculate_data K dm vector (py_int integration_width))
        (function_line_profile K now dm vector integration_width)
   \<and> holds_payload (array_fn (data dm)) (always (function_array array_fn now dm))
   \<and> (\<forall>d cs e. data dm = Some d \<and> is_data_valid (Some d)
          \<and> dimensional_calibrations dm = Some cs \<and> length cs = rank d
          \<and> (\<forall>c \<in> set cs. scale c \<noteq> 0) \<and> fft_calculate_data K dm = Inl e
          \<longrightarrow> function_fft K now dm = Inl e)
   \<and> value_fn (function_scalar op now dm) () = op (data dm)"
  unfolding column_def row_def radius_def full_def arange_def linspace_def logspace_def
    apply_dist_def function_fourier_mask_def function_sobel_def function_laplace_def
    function_gaussian_blur_def function_median_filter_def function_uniform_filter_def
    function_array_def Let_def
  by (intro conjI holds_payload_through holds_payload_generated holds_payload_fft
      holds_payload_ifft holds_payload_autocorrelate holds_payload_crosscorrelate
      holds_payload_transpose_flip holds_payload_invert holds_payload_crop
      holds_payload_crop_interval holds_payload_slice_sum holds_payload_pick
      holds_payload_concatenate holds_payload_hstack holds_payload_vstack holds_payload_sum
      holds_payload_reshape holds_payload_rescale holds_payload_resample_2d
      holds_payload_histogram holds_payload_line_profile)
    (auto simp: function_scalar_def intro: function_fft_raises)

theorem payload_computed_when_called_witness:
  "function_fft plain_kernel 0 (float_image [2, 2, 2, 2] [nm, nm, nm, nm])
     = Inl NotImplementedError
   \<and> (\<exists>r. function_fft plain_kernel 0 (float_image [4] [nm]) = Inr (Some r)
          \<and> fft_calculate_data plain_kernel (float_image [4] [nm]) = Inr (data r))
   \<and> (\<exists>r. function_crop 0 (float_image [4, 4] [nm, nm]) ((0, 0), (1, 1)) = Inr (Some r)
          \<and> crop_calculate_data (float_image [4, 4] [nm, nm]) ((0, 0), (1, 1)) = Inr (data r))
   \<and> value_fn (function_scalar (\<lambda>a. Inl ValueError :: error + real) 0 (float_image [4] [nm])) ()
       = Inl ValueError"
proof -
  have raises: "function_fft plain_kernel 0 (float_image [2, 2, 2, 2] [nm, nm, nm, nm])
      = Inl NotImplementedError"
    using payload_computed_when_called [where K = plain_kernel and R = plain_routines
        and now = 0 and dm = "float_image [2, 2, 2, 2] [nm, nm, nm, nm]" and mask_dm = "float_image [2, 2, 2, 2] [nm, nm, nm, nm]"
        and dmo = None and args = "[]" and data_and_metadata_list = "[]"
        and start = None and stop = None and normalise = False
        and s = "[]" and fill_value = 0 and t = None
        and first_value = 0 and last_value = None and step = None
        and ?x0.0 = 0 and ?x1.0 = 1 and num = 1 and endpoint = True and base = 10
        and dist_fn = "\<lambda>m s a. Inl ValueError" and mean = 0 and stddev = 1
        and sigma = 1 and sz = 1 and transpose_p = False and flip_v = False and flip_h = False
        and bounds = "((0, 0), (1, 1))" and interval = "(0, 1)"
        and slice_center = 0 and slice_width = 1 and position = "(0, 0)"
        and axis = 0 and sum_axis = NoAxis and new_shape = "[]" and data_range = None
        and size_2d = "(1, 1)" and bins = 1 and vector = "((0, 0), (1, 1))"
        and integration_width = 1 and array_fn = "\<lambda>a. Inr a"
        and op = "\<lambda>a. Inl ValueError :: error + real"]
    by (simp add: fft_calculate_data_def float_image_def zeros_def nm_def rank_def
        image_predicates)
  obtain r where r: "function_fft plain_kernel 0 (float_image [4] [nm]) = Inr (Some r)"
    by (simp add: function_fft_def fft_calculate_data_def fft_calibration_def py_div_def
        float_image_def zeros_def nm_def image_predicates)
  have fft: "fft_calculate_data plain_kernel (float_image [4] [nm]) = Inr (data r)"
    and scalar: "value_fn (function_scalar (\<lambda>a. Inl ValueError :: error + real) 0
                   (float_image [4] [nm])) () = Inl ValueError"
    using payload_computed_when_called [where K = plain_kernel and R = plain_routines
        and now = 0 and dm = "float_image [4] [nm]" and mask_dm = "float_image [4] [nm]"
        and dmo = None and args = "[]" and data_and_metadata_list = "[]"
        and start = None and stop = None and normalise = False
        and s = "[]" and fill_value = 0 and t = None
        and first_value = 0 and last_value = None and step = None
        and ?x0.0 = 0 and ?x1.0 = 1 and num = 1 and endpoint = True and base = 10
        and dist_fn = "\<lambda>m s a. Inl ValueError" and mean = 0 and stddev = 1
        and sigma = 1 and sz = 1 and transpose_p = False and flip_v = False and flip_h = False
        and bounds = "((0, 0), (1, 1))" and interval = "(0, 1)"
        and slice_center = 0 and slice_width = 1 and position = "(0, 0)"
        and axis = 0 and sum_axis = NoAxis and new_shape = "[]" and data_range = None
        and size_2d = "(1, 1)" and bins = 1 and vector = "((0, 0), (1, 1))"
        and integration_width = 1 and array_fn = "\<lambda>a. Inr a"
        and op = "\<lambda>a. Inl ValueError :: error + real"] r
    by (simp_all add: holds_payload_def)
  obtain c where c: "function_crop 0 (float_image [4, 4] [nm, nm]) ((0, 0), (1, 1))
      = Inr (Some c)"
    by (simp add: function_crop_def crop_calculate_data_def slice_axis01_def Let_def
        float_image_def zeros_def nm_def image_predicates)
  have crop: "crop_calculate_data (float_image [4, 4] [nm, nm]) ((0, 0), (1, 1)) = Inr (data c)"
    using payload_computed_when_called [where K = plain_kernel and R = plain_routines
        and now = 0 and dm = "float_image [4, 4] [nm, nm]" and mask_dm = "float_image [4, 4] [nm, nm]"
        and dmo = None and args = "[]" and data_and_metadata_list = "[]"
        and start = None and stop = None and normalise = False
        and s = "[]" and fill_value = 0 and t = None
        and first_value = 0 and last_value = None and step = None
        and ?x0.0 = 0 and ?x1.0 = 1 and num = 1 and endpoint = True and base = 10
        and dist_fn = "\<lambda>m s a. Inl ValueError" and mean = 0 and stddev = 1
        and sigma = 1 and sz = 1 and transpose_p = False and flip_v = False and flip_h = False
        and bounds = "((0, 0), (1, 1))" and interval = "(0, 1)"
        and slice_center = 0 and slice_width = 1 and position = "(0, 0)"
        and axis = 0 and sum_axis = NoAxis and new_shape = "[]" and data_range = None
        and size_2d = "(1, 1)" and bins = 1 and vector = "((0, 0), (1, 1))"
        and integration_width = 1 and array_fn = "\<lambda>a. Inr a"
        and op = "\<lambda>a. Inl ValueError :: error + real"] c
    by (simp add: holds_payload_def)
  show ?thesis
    using raises r fft scalar c crop by blast
qed

subsection \<open>Crop\<close>

lemma crop_calculate_data_Inr:
  "data dm = Some d \<Longrightarrow> 2 \<le> length (shape d) \<Longrightarrow> \<exists>r. crop_calculate_data dm bounds = Inr r"
  by (cases "shape d"; cases "tl (shape d)")
    (auto simp: crop_calculate_data_def slice_axis01_def Let_def)

text \<open>
  \<open>function_crop\<close> on a valid array of at least two axes with at most two calibrations:
  the calibration at position \<open>index\<close> keeps its scale and units, and its offset moves
  by \<open>shape[index] * bounds[0][index] * scale\<close>.
\<close>

lemma function_crop_calibrations:
  assumes "data dm = Some d" and "is_data_valid (Some d)" and "2 \<le> length (shape d)"
    and "dimensional_calibrations dm = Some cs" and "length cs \<le> 2"
  shows "\<exists>r. function_crop now dm bounds = Inr (Some r)
           \<and> dimensional_calibrations r =
               Some (map (\<lambda>(index, c).
                       \<lparr>offset = offset c + real (shape d ! index)
                                   * (if index = 0 then fst (fst bounds) else snd (fst bounds))
                                   * scale c,
                        scale = scale c, units = units c\<rparr>) (enumerate 0 cs))"
proof -
  obtain r where r: "crop_calculate_data dm bounds = Inr r"
    using crop_calculate_data_Inr [OF assms(1,3)] by blast
  have eq: "crop_calibration (shape d) bounds = (\<lambda>(index, c).
                       \<lparr>offset = offset c + real (shape d ! index)
                                   * (if index = 0 then fst (fst bounds) else snd (fst bounds))
                                   * scale c,
                        scale = scale c, units = units c\<rparr>)"
    by (rule ext) (simp add: crop_calibration_def)
  have "function_crop now dm bounds =
      Inr (Some (new_data_and_metadata r (intensity_calibration dm)
        (Some (map (crop_calibration (shape d) bounds) (enumerate 0 cs))) (metadata dm) now))"
    using assms valid_data_and_metadata [OF assms(1,2)] r
    by (simp add: function_crop_def)
  then show ?thesis
    by (simp add: new_data_and_metadata_def eq)
qed

text \<open>
  The scenario of the spec: shape \<open>(10, 10)\<close>, calibration \<open>(0, 1, "nm")\<close>, bounds
  \<open>((0.2, 0.0), (0.5, 1.0))\<close>.
\<close>

lemma function_crop_scenario:
  "\<exists>r a. function_crop 0 (float_image [10, 10] [nm, nm]) ((1 / 5, 0), (1 / 2, 1)) = Inr (Some r)
     \<and> data r = Some a \<and> shape a = [5, 10]
     \<and> map_option (\<lambda>cs. cs ! 0) (dimensional_calibrations r)
         = Some \<lparr>offset = 2, scale = 1, units = ''nm''\<rparr>"
  by (simp add: function_crop_def crop_calculate_data_def slice_axis01_def slice_bound_def
      crop_calibration_def py_int_def new_data_and_metadata_def float_image_def zeros_def nm_def
      image_predicates Let_def)

text \<open>
  Claim C2, at the failing input. On a one-axis array of length 10 with calibration
  \<open>(0, 1, "nm")\<close> and the interval \<open>(0.2, 0.5)\<close>, \<open>function_crop_interval\<close> keeps the
  three samples 2, 3 and 4 and gives the axis the offset 20: it multiplies the length
  of the axis by the integer pixel bound \<open>int(10 * 0.2) = 2\<close>, where \<open>function_crop\<close>
  multiplies it by the fractional bound 0.2, which gives the offset 2 of the claim.
\<close>

theorem function_crop_interval_offset:
  "\<exists>r a. function_crop_interval 0 (float_image [10] [nm]) (1 / 5, 1 / 2) = Inr (Some r)
     \<and> data r = Some a \<and> shape a = [3]
     \<and> dimensional_calibrations r = Some [\<lparr>offset = 20, scale = 1, units = ''nm''\<rparr>]"
  by (simp add: function_crop_interval_def crop_interval_calculate_data_def slice_axis0_def
      slice_bound_def py_int_def new_data_and_metadata_def float_image_def zeros_def nm_def
      image_predicates Let_def)

subsection \<open>Pick\<close>

text \<open>
  A position inside the image: the payload is the column of the stack at that
  position, and the calibrations of the last two axes are dropped.
\<close>

lemma function_pick_inside:
  assumes "data dm = Some d" and "is_data_valid (Some d)" and "shape d = [n, h, w]"
    and "dimensional_calibrations dm = Some cs"
    and "0 \<le> py_int (fst position * real h)" and "py_int (fst position * real h) < int h"
    and "0 \<le> py_int (snd position * real w)" and "py_int (snd position * real w) < int w"
  shows "function_pick now dm position =
           Inr (Some (new_data_and_metadata
                  (Some (take_column d (nat (py_int (fst position * real h)))
                                       (nat (py_int (snd position * real w)))))
                  (intensity_calibration dm) (Some (take (length cs - 2) cs)) (metadata dm) now))"
  using assms valid_data_and_metadata [OF assms(1,2)]
  by (simp add: function_pick_def pick_calculate_data_def Let_def)

lemma numpy_zeros_of_shape:
  "numpy_zeros (shape_arg_of_shape s) t = Inr (zeros s t)"
proof -
  have "map_result dim_of (map (\<lambda>n. Dim (int n)) s) = Inr s"
    by (induction s) auto
  then show ?thesis
    by (simp add: numpy_zeros_def shape_arg_of_shape_def zeros_def)
qed

lemma numpy_zeros_nested:
  "numpy_zeros (Dims [shape_arg_of_shape s]) t = Inl TypeError"
  by (simp add: numpy_zeros_def shape_arg_of_shape_def)

text \<open>
  Claim C9, at the failing input. On a stack of shape \<open>(2, 2, 2)\<close> the position
  \<open>(1.5, 0.5)\<close> maps to row 3, outside the image. The branch for that case calls
  \<^verbatim>\<open>numpy.zeros((data_shape[:-2], ), ...)\<close>, whose shape argument is a tuple inside a
  tuple, and numpy raises a \<^verbatim>\<open>TypeError\<close>: no zero-filled array is returned. The
  position \<open>(0.5, 0.5)\<close> inside the image returns the column.
\<close>

theorem function_pick_outside_raises:
  "function_pick now (float_image [2, 2, 2] [nm, nm, nm]) (3 / 2, 1 / 2) = Inl TypeError
   \<and> (\<exists>r. function_pick now (float_image [2, 2, 2] [nm, nm, nm]) (1 / 2, 1 / 2) = Inr (Some r)
          \<and> map_option shape (data r) = Some [2]
          \<and> dimensional_calibrations r = Some [nm])"
  by (simp add: function_pick_def pick_calculate_data_def numpy_zeros_def
      shape_arg_of_shape_def take_column_def py_int_def new_data_and_metadata_def
      float_image_def zeros_def image_predicates Let_def)

subsection \<open>Concatenate, hstack, vstack\<close>

text \<open>
  Whenever \<open>function_concatenate\<close> returns a result, the result has the first input's
  intensity calibration, the first input's calibration on the concatenation axis and
  the uncalibrated calibration on every other axis.
\<close>

lemma function_concatenate_calibrations:
  assumes "function_concatenate K now (first # rest) axis = Inr (Some r)"
  shows "intensity_calibration r = intensity_calibration first
    \<and> (\<exists>cals. dimensional_calibrations first = Some cals
          \<and> dimensional_calibrations r =
               Some (map (\<lambda>(index, c). if int index = axis then c else uncalibrated)
                       (enumerate 0 cals)))"
proof -
  have eq: "(\<lambda>(index, c). if int index \<noteq> axis then uncalibrated else c)
      = (\<lambda>(index, c :: calibration). if int index = axis then c else uncalibrated)"
    by (rule ext) auto
  show ?thesis
    using assms
    by (auto simp: function_concatenate_def new_data_and_metadata_def eq
        split: if_splits option.splits sum.splits)
qed

text \<open>
  Claim C7, at the failing inputs. The guard that was to return an absent result on a
  shape mismatch never fires, and the test inside \<open>calculate_data\<close> compares the shapes
  without their first axis whatever the concatenation axis is. Joining shapes
  \<open>(2, 3)\<close> and \<open>(2, 4)\<close> on axis 0 returns a result, with calibrations, whose payload is
  absent; \<open>function_hstack\<close> on shapes \<open>(2, 3)\<close> and \<open>(5, 3)\<close>, which differ on axis 0
  and are joined on axis 1, passes the test and numpy's concatenation raises.
\<close>

theorem function_concatenate_mismatch:
  "(\<exists>r. function_concatenate K now [float_image [2, 3] [nm, nm], float_image [2, 4] [nm, nm]] 0
           = Inr (Some r)
        \<and> data r = None \<and> dimensional_calibrations r = Some [nm, uncalibrated])
   \<and> function_hstack K now [float_image [2, 3] [nm, nm], float_image [5, 3] [nm, nm]] = Inl ValueError
   \<and> function_concatenate K now [float_image [2, 3] [nm, nm], float_image [5, 3] [nm, nm]] 1
       = Inl ValueError"
  by (simp add: function_hstack_def function_concatenate_def concatenate_calculate_data_def
      concatenate_shape_guard_def numpy_concatenate_def new_data_and_metadata_def
      float_image_def zeros_def image_predicates Let_def)

subsection \<open>Reshape\<close>

text \<open>
  Going to one more axis with a \<open>-1\<close> at the end and coming back, the property of the
  spec: the two calibrations survive, the new axis is uncalibrated.
\<close>

lemma function_reshape_extend_scenario:
  "\<exists>r a. function_reshape 0 (float_image [2, 3] [counts, nm]) [2, 3, - 1] = Inr (Some r)
     \<and> data r = Some a \<and> shape a = [2, 3, 1]
     \<and> dimensional_calibrations r = Some [counts, nm, uncalibrated]"
  by (simp add: function_reshape_def reshape_calibrations_def reshape_calculate_data_def
      numpy_reshape_def new_data_and_metadata_def float_image_def zeros_def image_predicates Let_def)

lemma function_reshape_drop_scenario:
  "\<exists>r a. function_reshape 0 (float_image [2, 3, 1] [counts, nm, uncalibrated]) [2, 3] = Inr (Some r)
     \<and> data r = Some a \<and> shape a = [2, 3]
     \<and> dimensional_calibrations r = Some [counts, nm]"
  by (simp add: function_reshape_def reshape_calibrations_def reshape_calculate_data_def
      numpy_reshape_def new_data_and_metadata_def float_image_def zeros_def image_predicates Let_def)

text \<open>
  Claim C4, at the failing input. The source has shape \<open>(1, 1, 4)\<close> and three
  calibrations, the target shape is \<open>(1, 4)\<close>: the target rank is the source rank
  minus 1 and the source has axes of size 1. \<open>function_reshape\<close> drops the calibration
  of every axis of size 1, two of them, so the result carries one calibration for a
  payload of rank 2.
\<close>

theorem function_reshape_drops_two:
  "\<exists>r a cals. function_reshape 0 (float_image [1, 1, 4] [counts, counts, nm]) [1, 4] = Inr (Some r)
     \<and> data r = Some a \<and> shape a = [1, 4] \<and> rank a = 2
     \<and> dimensional_calibrations r = Some cals \<and> cals = [nm] \<and> length cals = 1"
  by (simp add: function_reshape_def reshape_calibrations_def reshape_calculate_data_def
      numpy_reshape_def new_data_and_metadata_def float_image_def zeros_def rank_def
      image_predicates Let_def)

subsection \<open>Spatial filters on colour images\<close>

lemma pass_through_calibrations:
  "pass_through now dm payload = Inr r \<Longrightarrow>
     intensity_calibration r = intensity_calibration dm
     \<and> dimensional_calibrations r = dimensional_calibrations dm"
  by (auto simp: pass_through_def new_data_and_metadata_def split: sum.splits)

text \<open>
  Every one of the five filters returns the source's intensity and dimensional
  calibrations.
\<close>

lemma filters_keep_calibrations:
  "function_sobel K now dm = Inr r \<or> function_laplace K now dm = Inr r
   \<or> function_gaussian_blur K now dm sigma = Inr r
   \<or> function_median_filter K now dm sz = Inr r
   \<or> function_uniform_filter K now dm sz = Inr r \<Longrightarrow>
     intensity_calibration r = intensity_calibration dm
     \<and> dimensional_calibrations r = dimensional_calibrations dm"
  unfolding function_sobel_def function_laplace_def function_gaussian_blur_def
    function_median_filter_def function_uniform_filter_def Let_def
  using pass_through_calibrations by blast

text \<open>
  On an RGBA image the four filters that share \<open>calculate_filtered\<close> run their routine
  on the red, green and blue planes one by one and store the alpha plane as it is.
\<close>

lemma calculate_filtered_rgba:
  assumes "is_data_valid (Some d)" and "is_shape_and_dtype_rgba (shape d) (dtype d)"
    and "\<And>a. shape (f a) = shape a"
  shows "calculate_filtered f (Some d) =
           Inr (Some \<lparr>shape = butlast (shape d) @ [4], dtype = UInt8,
                      elems = concat (transpose [elems (f (channel d 0)), elems (f (channel d 1)),
                                                  elems (f (channel d 2)), elems (channel d 3)])\<rparr>)"
proof -
  have "\<not> is_shape_and_dtype_rgb (shape d) (dtype d)"
    using assms(2) by (auto simp: is_shape_and_dtype_rgb_def is_shape_and_dtype_rgba_def)
  then show ?thesis
    using assms by (simp add: calculate_filtered_def stack_channels_def channel_def)
qed

lemma function_sobel_rgba_pixel:
  "\<exists>r a. function_sobel (plain_kernel\<lparr>k_sobel := all_seven\<rparr>) 0 rgba_pixel = Inr r
     \<and> data r = Some a \<and> elems a = [7, 7, 7, 255]"
  by (simp add: function_sobel_def pass_through_def calculate_filtered_def stack_channels_def
      channel_def chunks_def all_seven_def rgba_pixel_def new_data_and_metadata_def
      plain_kernel_def image_predicates)

text \<open>
  Claim C6, at the failing input. On the RGBA pixel \<open>(10, 20, 30, 255)\<close>
  \<open>function_gaussian_blur\<close> hands the whole array of shape \<open>(1, 1, 4)\<close>, colour axis and
  alpha included, to the Gaussian routine and returns what comes back: the channels
  are not filtered one by one and the alpha channel is not passed through. With a
  routine that sets every element to 7 the alpha of the result is 7, where
  \<open>function_sobel\<close> with the same routine keeps 255.
\<close>

theorem function_gaussian_blur_rgba_pixel:
  "function_gaussian_blur K now rgba_pixel sigma =
     Inr (new_data_and_metadata
            (Some (k_gaussian_filter K
                     \<lparr>shape = [1, 1, 4], dtype = UInt8, elems = [10, 20, 30, 255]\<rparr> sigma))
            counts (Some [nm, nm]) [] now)
   \<and> (\<exists>r a. function_gaussian_blur (plain_kernel\<lparr>k_gaussian_filter := \<lambda>a sigma. all_seven a\<rparr>)
               0 rgba_pixel 1 = Inr r
          \<and> data r = Some a \<and> elems a = [7, 7, 7, 7])"
  by (simp add: function_gaussian_blur_def pass_through_def gaussian_blur_calculate_data_def
      all_seven_def rgba_pixel_def new_data_and_metadata_def plain_kernel_def image_predicates)

subsection \<open>Filter sizes\<close>

lemma py_int_less_one: "x < 1 \<Longrightarrow> py_int x \<le> 0"
  by (auto simp: py_int_def intro: ceiling_le)







subsection \<open>Line profile\<close>

lemma py_int_positive_iff: "0 < py_int x \<longleftrightarrow> 1 \<le> x"
proof
  assume "0 < py_int x"
  then show "1 \<le> x"
    using py_int_less_one [of x] by (cases "x < 1") auto
next
  assume "1 \<le> x"
  then have "1 \<le> \<lfloor>x\<rfloor>" by (simp add: le_floor_iff)
  then show "0 < py_int x" using \<open>1 \<le> x\<close> by (simp add: py_int_def)
qed

lemma line_profile_calculate_data_Inr:
  assumes "data dm = Some d" and "is_data_valid (Some d)"
    and "2 \<le> length (shape (if is_shape_and_dtype_rgb_type (shape d) (dtype d)
                              then k_convert_to_grayscale K d else d))"
  shows "\<exists>r. line_profile_calculate_data K dm vector n = Inr r"
  using assms by (auto simp: line_profile_calculate_data_def Let_def)

text \<open>
  Claim C8, the counterexample: the width 0.5 is positive, and the call fails with an
  assertion failure, since \<open>int(0.5)\<close> is 0.
\<close>

theorem function_line_profile_half_width:
  "(0 :: real) < 1 / 2
   \<and> function_line_profile plain_kernel 0 (float_image [4, 4] [nm, nm]) ((0, 0), (1, 1)) (1 / 2)
       = Inl AssertionError"
  by (simp add: function_line_profile_def py_int_def)

text \<open>
  Claim C8, as amended. \<open>function_line_profile\<close> asserts that \<open>int(integration_width)\<close>
  is positive before it reads its input: every width below 1, so every width that is
  0 or negative, ends in an assertion failure on every input. With a width of at
  least 1 and a valid input of rank 2 that has two dimensional calibrations, there is
  a result, and its only axis calibration has offset 0 and the scale and units of the
  second source axis.
\<close>

theorem function_line_profile_width:
  "(integration_width < 1 \<longrightarrow>
      function_line_profile K now dm vector integration_width = Inl AssertionError)
   \<and> (1 \<le> integration_width \<and> data dm = Some d \<and> is_data_valid (Some d) \<and> is_data_2d d
        \<and> dimensional_calibrations dm = Some [c0, c1]
        \<and> (is_shape_and_dtype_rgb_type (shape d) (dtype d)
              \<longrightarrow> 2 \<le> length (shape (k_convert_to_grayscale K d))) \<longrightarrow>
      (\<exists>r. function_line_profile K now dm vector integration_width = Inr (Some r)
          \<and> dimensional_calibrations r
              = Some [\<lparr>offset = 0, scale = scale c1, units = units c1\<rparr>]))"
proof (intro conjI impI)
  assume "integration_width < 1"
  then have "\<not> 0 < py_int integration_width"
    by (simp add: py_int_positive_iff)
  then show "function_line_profile K now dm vector integration_width = Inl AssertionError"
    by (simp add: function_line_profile_def)
next
  assume h: "1 \<le> integration_width \<and> data dm = Some d \<and> is_data_valid (Some d) \<and> is_data_2d d
        \<and> dimensional_calibrations dm = Some [c0, c1]
        \<and> (is_shape_and_dtype_rgb_type (shape d) (dtype d)
              \<longrightarrow> 2 \<le> length (shape (k_convert_to_grayscale K d)))"
  then have w: "0 < py_int integration_width"
    by (simp add: py_int_positive_iff)
  have two: "2 \<le> length (shape (if is_shape_and_dtype_rgb_type (shape d) (dtype d)
                              then k_convert_to_grayscale K d else d))"
    using h by (auto simp: is_data_2d_def is_shape_and_dtype_2d_def
        dimensional_shape_from_shape_and_dtype_def)
  obtain r where r: "line_profile_calculate_data K dm vector (py_int integration_width) = Inr r"
    using line_profile_calculate_data_Inr [of dm d K] h two by blast
  have "function_line_profile K now dm vector integration_width =
      Inr (Some (new_data_and_metadata r (intensity_calibration dm)
        (Some [\<lparr>offset = 0, scale = scale c1, units = units c1\<rparr>]) (metadata dm) now))"
    using h w r valid_data_and_metadata [of dm d]
    by (simp add: function_line_profile_def)
  then show "\<exists>r. function_line_profile K now dm vector integration_width = Inr (Some r)
          \<and> dimensional_calibrations r
              = Some [\<lparr>offset = 0, scale = scale c1, units = units c1\<rparr>]"
    by (simp add: new_data_and_metadata_def)
qed

theorem function_line_profile_width_witness:
  "function_line_profile plain_kernel 0 (float_image [4, 4] [counts, nm]) ((0, 0), (1, 1)) 0
     = Inl AssertionError
   \<and> (\<exists>r. function_line_profile plain_kernel 0 (float_image [4, 4] [counts, nm]) ((0, 0), (1, 1)) 2
            = Inr (Some r)
          \<and> dimensional_calibrations r = Some [\<lparr>offset = 0, scale = 1, units = ''nm''\<rparr>])"
proof -
  have "function_line_profile plain_kernel 0 (float_image [4, 4] [counts, nm]) ((0, 0), (1, 1)) 0
     = Inl AssertionError"
    using function_line_profile_width
      [of 0 plain_kernel 0 "float_image [4, 4] [counts, nm]" "((0, 0), (1, 1))"]
    by simp
  moreover have "\<exists>r. function_line_profile plain_kernel 0 (float_image [4, 4] [counts, nm])
            ((0, 0), (1, 1)) 2 = Inr (Some r)
          \<and> dimensional_calibrations r = Some [\<lparr>offset = 0, scale = 1, units = ''nm''\<rparr>]"
    using function_line_profile_width
      [of 2 plain_kernel 0 "float_image [4, 4] [counts, nm]" "((0, 0), (1, 1))"
          "zeros [4, 4] Float64" counts nm]
    by (simp add: float_image_def zeros_def nm_def image_predicates)
  ultimately show ?thesis
    by blast
qed

end
